theory Spec2Isabelle
  imports Main "HOL-Library.Sublist"
begin

section \<open>Go strings\<close>

text \<open>
  A Go string is a sequence of bytes, so it is modelled as \<^typ>\<open>string\<close> (a list of
  8-bit characters). Every library function used by the sources is modelled on bytes; where
  Go decodes UTF-8 (white space, case mapping) the byte sequences are written out.
\<close>

text \<open>\<^verbatim>\<open>strings.Contains(s, substr)\<close>\<close>

definition Contains :: "string \<Rightarrow> string \<Rightarrow> bool" where
  "Contains s substr = sublist substr s"

text \<open>
  \<^verbatim>\<open>strings.Split(s, sep)\<close> for a non-empty separator (the sources split on one and on two
  line feeds only): the pieces around every leftmost, non-overlapping instance of the
  separator; a string without the separator is the only piece.
\<close>

fun Split :: "string \<Rightarrow> string \<Rightarrow> string list" where
  "Split [] sep = [[]]"
| "Split (c # cs) sep =
     (if sep \<noteq> [] \<and> prefix sep (c # cs) then [] # Split (drop (length sep - 1) cs) sep
      else (case Split cs sep of [] \<Rightarrow> [[c]] | p # ps \<Rightarrow> (c # p) # ps))"

text \<open>\<^verbatim>\<open>strings.Join(elems, sep)\<close>\<close>

fun Join :: "string list \<Rightarrow> string \<Rightarrow> string" where
  "Join [] sep = []"
| "Join [x] sep = x"
| "Join (x # y # ys) sep = x @ sep @ Join (y # ys) sep"

text \<open>
  \<^verbatim>\<open>strings.ReplaceAll(s, old, "")\<close>: every leftmost, non-overlapping instance of
  \<open>old\<close> is deleted, in one pass from the left.
\<close>

fun ReplaceAll_empty :: "string \<Rightarrow> string \<Rightarrow> string" where
  "ReplaceAll_empty [] old = []"
| "ReplaceAll_empty (c # cs) old =
     (if old \<noteq> [] \<and> prefix old (c # cs) then ReplaceAll_empty (drop (length old - 1) cs) old
      else c # ReplaceAll_empty cs old)"

text \<open>
  The UTF-8 encodings of the code points for which \<^verbatim>\<open>unicode.IsSpace\<close> holds:
  U+0009 to U+000D, U+0020, U+0085, U+00A0, U+1680, U+2000 to U+200A, U+2028, U+2029,
  U+202F, U+205F and U+3000.
\<close>

definition unicode_spaces :: "string list" where
  "unicode_spaces =
     [[CHR 0x09], [CHR 0x0A], [CHR 0x0B], [CHR 0x0C], [CHR 0x0D], [CHR 0x20],
      [CHR 0xC2, CHR 0x85], [CHR 0xC2, CHR 0xA0], [CHR 0xE1, CHR 0x9A, CHR 0x80],
      [CHR 0xE2, CHR 0x80, CHR 0x80], [CHR 0xE2, CHR 0x80, CHR 0x81],
      [CHR 0xE2, CHR 0x80, CHR 0x82], [CHR 0xE2, CHR 0x80, CHR 0x83],
      [CHR 0xE2, CHR 0x80, CHR 0x84], [CHR 0xE2, CHR 0x80, CHR 0x85],
      [CHR 0xE2, CHR 0x80, CHR 0x86], [CHR 0xE2, CHR 0x80, CHR 0x87],
      [CHR 0xE2, CHR 0x80, CHR 0x88], [CHR 0xE2, CHR 0x80, CHR 0x89],
      [CHR 0xE2, CHR 0x80, CHR 0x8A], [CHR 0xE2, CHR 0x80, CHR 0xA8],
      [CHR 0xE2, CHR 0x80, CHR 0xA9], [CHR 0xE2, CHR 0x80, CHR 0xAF],
      [CHR 0xE2, CHR 0x81, CHR 0x9F], [CHR 0xE3, CHR 0x80, CHR 0x80]]"

text \<open>The number of bytes of the white-space code point a string starts with, or 0.\<close>

definition space_width :: "string list \<Rightarrow> string \<Rightarrow> nat" where
  "space_width ws s = (case find (\<lambda>w. prefix w s) ws of None \<Rightarrow> 0 | Some w \<Rightarrow> length w)"

fun trim_left :: "string list \<Rightarrow> string \<Rightarrow> string" where
  "trim_left ws [] = []"
| "trim_left ws (c # cs) =
     (if space_width ws (c # cs) = 0 then c # cs
      else trim_left ws (drop (space_width ws (c # cs) - 1) cs))"

text \<open>
  \<^verbatim>\<open>strings.TrimSpace(s)\<close>: the leading and the trailing white-space code points are
  cut off. The trailing ones are found on the reversed string against the reversed
  encodings.
\<close>

definition TrimSpace :: "string \<Rightarrow> string" where
  "TrimSpace s = rev (trim_left (map rev unicode_spaces) (rev (trim_left unicode_spaces s)))"

section \<open>The regular expressions of the subtitle parser\<close>

text \<open>The class \<^verbatim>\<open>\s\<close> of Go's regexp package: tab, line feed, form feed, carriage return, space.\<close>

definition is_re_space :: "char \<Rightarrow> bool" where
  "is_re_space c =
     (c = CHR 0x09 \<or> c = CHR 0x0A \<or> c = CHR 0x0C \<or> c = CHR 0x0D \<or> c = CHR 0x20)"

text \<open>\<^verbatim>\<open>regexp.MustCompile(`\s+`).ReplaceAllString(text, " ")\<close>: every maximal run becomes one space.\<close>

function replace_ws_runs :: "string \<Rightarrow> string" where
  "replace_ws_runs [] = []"
| "replace_ws_runs (c # cs) =
     (if is_re_space c then CHR 0x20 # replace_ws_runs (dropWhile is_re_space cs)
      else c # replace_ws_runs cs)"
  by pat_completeness auto
termination
  by (relation "measure length") (auto simp: length_dropWhile_le le_imp_less_Suc)

text \<open>
  \<^verbatim>\<open>regexp.MustCompile(`(?i)^WEBVTT[^\n]*\n`).ReplaceAllString(content, "")\<close>. Without the
  flag \<open>m\<close> the anchor matches at the start of the text only, so there is at most one
  match: the text starts with the six letters in any case and has a line feed, and the
  match runs through the first line feed. None of the six letters folds to a letter
  outside ASCII.
\<close>

definition upper_ascii :: "char \<Rightarrow> char" where
  "upper_ascii c =
     (let n = (of_char c :: nat) in if 97 \<le> n \<and> n \<le> 122 then char_of (n - 32) else c)"

definition remove_webvtt_header :: "string \<Rightarrow> string" where
  "remove_webvtt_header content =
     (if map upper_ascii (take 6 content) = ''WEBVTT'' \<and> CHR 0x0A \<in> set content
      then tl (dropWhile (\<lambda>c. c \<noteq> CHR 0x0A) content)
      else content)"

text \<open>
  \<^verbatim>\<open>regexp.MustCompile(`(?m)^NOTE.*$`).ReplaceAllString(content, "")\<close>. With the flag \<open>m\<close>
  the anchors match at the start and the end of every line, and the dot does not match a
  line feed: of every line that starts with \<open>NOTE\<close> the text is deleted and the line feed
  stays. The flag tells whether the position is at the start of a line.
\<close>

function remove_note_lines :: "bool \<Rightarrow> string \<Rightarrow> string" where
  "remove_note_lines bol [] = []"
| "remove_note_lines bol (c # cs) =
     (if bol \<and> prefix ''NOTE'' (c # cs)
      then remove_note_lines False (dropWhile (\<lambda>x. x \<noteq> CHR 0x0A) cs)
      else c # remove_note_lines (c = CHR 0x0A) cs)"
  by pat_completeness auto
termination
  by (relation "measure (\<lambda>(bol, s). length s)") (auto simp: length_dropWhile_le le_imp_less_Suc)

text \<open>\<^verbatim>\<open>strings.Index(s, substr)\<close>: where the first instance starts.\<close>

fun Index :: "string \<Rightarrow> string \<Rightarrow> nat option" where
  "Index [] substr = (if substr = [] then Some 0 else None)"
| "Index (c # cs) substr =
     (if prefix substr (c # cs) then Some 0 else map_option Suc (Index cs substr))"

text \<open>
  \<^verbatim>\<open>regexp.MustCompile(`(?s)STYLE\s*\n.*?\n\n`).ReplaceAllString(content, "")\<close>.
  \<open>style_match s\<close> is the length of the match that starts at the head of \<open>s\<close>, as a
  backtracking search finds it: after the word, the greedy \<^verbatim>\<open>\s*\<close> takes the longest
  stretch \<open>k\<close> of the white space that is followed by a line feed and then, somewhere, by two
  line feeds in a row; the lazy \<^verbatim>\<open>.*?\<close> (which matches line feeds under the flag \<open>s\<close>)
  stops at the first such pair.
\<close>

definition style_match :: "string \<Rightarrow> nat option" where
  "style_match s =
     (if prefix ''STYLE'' s then
        (let r = drop 5 s;
             ws = takeWhile is_re_space r;
             ks = filter (\<lambda>k. r ! k = CHR 0x0A \<and> Index (drop (Suc k) r) [CHR 0x0A, CHR 0x0A] \<noteq> None)
                    (rev [0..<length ws])
         in case ks of
              [] \<Rightarrow> None
            | k # _ \<Rightarrow>
                (case Index (drop (Suc k) r) [CHR 0x0A, CHR 0x0A] of
                   None \<Rightarrow> None
                 | Some i \<Rightarrow> Some (5 + Suc k + i + 2)))
      else None)"

fun remove_style_blocks :: "string \<Rightarrow> string" where
  "remove_style_blocks [] = []"
| "remove_style_blocks (c # cs) =
     (case style_match (c # cs) of
        None \<Rightarrow> c # remove_style_blocks cs
      | Some n \<Rightarrow> remove_style_blocks (drop (n - 1) cs))"

text \<open>
  \<^verbatim>\<open>regexp.MustCompile(`<[^>]+>`).ReplaceAllString(line, "")\<close>. \<open>tag_len cs\<close> is the
  number of bytes the rest of the pattern takes after an opening bracket, or 0 when
  nothing matches there: at least one byte other than the closing bracket, then the
  closing bracket.
\<close>

definition tag_len :: "string \<Rightarrow> nat" where
  "tag_len cs =
     (let body = takeWhile (\<lambda>c. c \<noteq> CHR ''>'') cs
      in if body \<noteq> [] \<and> length body < length cs then Suc (length body) else 0)"

fun remove_tags :: "string \<Rightarrow> string" where
  "remove_tags [] = []"
| "remove_tags (c # cs) =
     (if c = CHR ''<'' \<and> tag_len cs \<noteq> 0 then remove_tags (drop (tag_len cs) cs)
      else c # remove_tags cs)"

section \<open>The subtitle parser (package youtube)\<close>

text \<open>
  Go's \<^verbatim>\<open>error\<close> values: a message (\<^verbatim>\<open>errors.New\<close>, \<^verbatim>\<open>fmt.Errorf\<close> without a verb for an
  error) or a message wrapped around another error (\<^verbatim>\<open>fmt.Errorf("...: %w", err)\<close>).
\<close>

datatype error = ErrorString string | Wrapped string error

text \<open>
  \<^verbatim>\<open>func (p *SubtitleParser) ParseJSON3(data []byte) (string, error)\<close>. Decoding the bytes
  into the anonymous struct is the library's \<^verbatim>\<open>json.Unmarshal\<close>, taken as a parameter;
  what it stores is \<open>result.Events[i].Segs[j].UTF8\<close>, a list (the events) of lists (the
  segments) of strings.
\<close>

type_synonym json3_events = "string list list"

fun json3_segs :: "string list \<Rightarrow> string" where
  "json3_segs [] = []"
| "json3_segs (utf8 # segs) =
     (if utf8 \<noteq> [] \<and> utf8 \<noteq> [CHR 0x0A] then utf8 @ '' '' @ json3_segs segs
      else json3_segs segs)"

fun json3_events :: "json3_events \<Rightarrow> string" where
  "json3_events [] = []"
| "json3_events (event # events) = json3_segs event @ json3_events events"

definition ParseJSON3 :: "(string \<Rightarrow> error + json3_events) \<Rightarrow> string \<Rightarrow> error + string" where
  "ParseJSON3 unmarshal data =
     (case unmarshal data of
        Inl err \<Rightarrow> Inl (Wrapped ''failed to parse JSON3'' err)
      | Inr events \<Rightarrow> Inr (TrimSpace (json3_events events)))"

text \<open>\<^verbatim>\<open>func (p *SubtitleParser) ParseSRT(data []byte) (string, error)\<close>; it never fails.\<close>

definition srt_block :: "string \<Rightarrow> string" where
  "srt_block block =
     (let lines = Split (TrimSpace block) [CHR 0x0A]
      in if length lines \<ge> 3 then Join (drop 2 lines) '' '' @ '' '' else [])"

fun srt_blocks :: "string list \<Rightarrow> string" where
  "srt_blocks [] = []"
| "srt_blocks (block # blocks) = srt_block block @ srt_blocks blocks"

definition ParseSRT :: "string \<Rightarrow> error + string" where
  "ParseSRT data =
     (let content = data;
          blocks = Split content [CHR 0x0A, CHR 0x0A]
      in Inr (TrimSpace (srt_blocks blocks)))"

text \<open>\<^verbatim>\<open>func (p *SubtitleParser) ParseVTT(data []byte) (string, error)\<close>; it never fails.\<close>

definition vtt_line :: "string \<Rightarrow> string" where
  "vtt_line line =
     (if \<not> Contains line ''-->'' \<and> TrimSpace line \<noteq> []
      then TrimSpace (remove_tags line) @ '' ''
      else [])"

fun vtt_lines :: "string list \<Rightarrow> string" where
  "vtt_lines [] = []"
| "vtt_lines (line # lines) = vtt_line line @ vtt_lines lines"

fun vtt_blocks :: "string list \<Rightarrow> string" where
  "vtt_blocks [] = []"
| "vtt_blocks (block # blocks) =
     vtt_lines (Split (TrimSpace block) [CHR 0x0A]) @ vtt_blocks blocks"

definition ParseVTT :: "string \<Rightarrow> error + string" where
  "ParseVTT data =
     (let content0 = data;
          content1 = remove_webvtt_header content0;
          content2 = remove_note_lines True content1;
          content3 = remove_style_blocks content2;
          blocks = Split content3 [CHR 0x0A, CHR 0x0A]
      in Inr (TrimSpace (vtt_blocks blocks)))"

text \<open>
  \<^verbatim>\<open>func (p *SubtitleParser) CleanTranscript(text string) string\<close>: white-space runs are
  collapsed first, then the three artifacts are deleted one after the other, then the
  result is trimmed.
\<close>

definition CleanTranscript :: "string \<Rightarrow> string" where
  "CleanTranscript text0 =
     (let text1 = replace_ws_runs text0;
          text2 = ReplaceAll_empty text1 ''[Music]'';
          text3 = ReplaceAll_empty text2 ''[Applause]'';
          text4 = ReplaceAll_empty text3 ''[Laughter]''
      in TrimSpace text4)"

section \<open>The caption locator (package youtube, client.go)\<close>

text \<open>
  The metadata is what \<^verbatim>\<open>json.Unmarshal\<close> stores into a \<^verbatim>\<open>map[string]interface{}\<close>: a
  dynamically typed JSON value. An object is the decoded map, given as an association list
  that is read with \<^const>\<open>map_of\<close>. A number is a \<^verbatim>\<open>float64\<close> in Go; the locator only
  tests dynamic types and never reads a number, so the payload is kept as an integer.
\<close>

datatype json =
    JNull
  | JBool bool
  | JNumber int
  | JString string
  | JArray "json list"
  | JObject "(string \<times> json) list"

text \<open>
  The checked type assertions \<^verbatim>\<open>m[k].(string)\<close>, \<^verbatim>\<open>m[k].(map[string]interface{})\<close> and
  \<^verbatim>\<open>m[k].([]interface{})\<close> on the result of a map lookup: a missing key and a value of
  another dynamic type both give \<^verbatim>\<open>ok == false\<close>.
\<close>

fun as_string :: "json option \<Rightarrow> string option" where
  "as_string (Some (JString s)) = Some s"
| "as_string _ = None"

fun as_object :: "json option \<Rightarrow> (string \<times> json) list option" where
  "as_object (Some (JObject m)) = Some m"
| "as_object _ = None"

fun as_array :: "json option \<Rightarrow> json list option" where
  "as_array (Some (JArray xs)) = Some xs"
| "as_array _ = None"

text \<open>The same assertion on a slice element: \<^verbatim>\<open>sub.(map[string]interface{})\<close>.\<close>

fun elem_object :: "json \<Rightarrow> (string \<times> json) list option" where
  "elem_object (JObject m) = Some m"
| "elem_object _ = None"

text \<open>
  The inner loop of \<^verbatim>\<open>extractSubtitleURL\<close> (\<^verbatim>\<open>for _, sub := range enSubs\<close>) for one preferred
  format: the url of the first entry that is a mapping, declares this extension and has a
  string url.
\<close>

fun scan_entries :: "json list \<Rightarrow> string \<Rightarrow> string option" where
  "scan_entries [] preferredFormat = None"
| "scan_entries (sub # subs) preferredFormat =
     (case elem_object sub of
        None \<Rightarrow> scan_entries subs preferredFormat
      | Some subInfo \<Rightarrow>
          (case as_string (map_of subInfo ''ext'') of
             None \<Rightarrow> scan_entries subs preferredFormat
           | Some ext \<Rightarrow>
               if ext = preferredFormat then
                 (case as_string (map_of subInfo ''url'') of
                    None \<Rightarrow> scan_entries subs preferredFormat
                  | Some url \<Rightarrow> Some url)
               else scan_entries subs preferredFormat))"

text \<open>The outer loop (\<^verbatim>\<open>for _, preferredFormat := range formatPreference\<close>).\<close>

fun scan_formats :: "json list \<Rightarrow> string list \<Rightarrow> (string \<times> string) option" where
  "scan_formats enSubs [] = None"
| "scan_formats enSubs (preferredFormat # rest) =
     (case scan_entries enSubs preferredFormat of
        Some url \<Rightarrow> Some (url, preferredFormat)
      | None \<Rightarrow> scan_formats enSubs rest)"

text \<open>The fallback on \<^verbatim>\<open>enSubs[0]\<close> after both loops found nothing.\<close>

definition first_available :: "json \<Rightarrow> string \<times> string" where
  "first_available sub0 =
     (case elem_object sub0 of
        None \<Rightarrow> ('''', '''')
      | Some subInfo \<Rightarrow>
          (case as_string (map_of subInfo ''url'') of
             None \<Rightarrow> ('''', '''')
           | Some url \<Rightarrow>
               (url, case as_string (map_of subInfo ''ext'') of
                       None \<Rightarrow> ''unknown''
                     | Some ext \<Rightarrow> ext)))"

text \<open>
  \<^verbatim>\<open>func (c *Client) extractSubtitleURL(subsData, formatPreference) (string, string)\<close>.
  The pair of empty strings is Go's "nothing found".
\<close>

definition extractSubtitleURL :: "(string \<times> json) list \<Rightarrow> string list \<Rightarrow> string \<times> string" where
  "extractSubtitleURL subsData formatPreference =
     (case as_array (map_of subsData ''en'') of
        None \<Rightarrow> ('''', '''')
      | Some enSubs \<Rightarrow>
          (case enSubs of
             [] \<Rightarrow> ('''', '''')
           | sub0 # _ \<Rightarrow>
               (case scan_formats enSubs formatPreference of
                  Some found \<Rightarrow> found
                | None \<Rightarrow> first_available sub0)))"

definition formatPreference :: "string list" where
  "formatPreference = [''json3'', ''vtt'', ''srv3'', ''srv2'', ''srv1'']"

text \<open>
  \<^verbatim>\<open>func (c *Client) findBestSubtitleURL(videoData) (string, string)\<close>: the automatic
  captions first; the manual subtitles when the automatic ones gave an empty url.
\<close>

definition findBestSubtitleURL :: "(string \<times> json) list \<Rightarrow> string \<times> string" where
  "findBestSubtitleURL videoData =
     (let fromAuto =
            (case as_object (map_of videoData ''automatic_captions'') of
               None \<Rightarrow> ('''', '''')
             | Some autoCaps \<Rightarrow> extractSubtitleURL autoCaps formatPreference)
      in if fst fromAuto \<noteq> '''' then fromAuto
         else
           (let fromSubs =
                  (case as_object (map_of videoData ''subtitles'') of
                     None \<Rightarrow> ('''', '''')
                   | Some subs \<Rightarrow> extractSubtitleURL subs formatPreference)
            in if fst fromSubs \<noteq> '''' then fromSubs else ('''', '''')))"

text \<open>
  The words of the specification, for stating what the locator returns. An entry
  \<^emph>\<open>has a url\<close> when it is a mapping that carries a string under \<open>url\<close>; it \<^emph>\<open>matches\<close> a
  format when, besides, it declares this extension under \<open>ext\<close>. \<open>entry_format\<close> is the
  declared extension of an entry, or \<open>unknown\<close>.
\<close>

definition declared_ext :: "json \<Rightarrow> string option" where
  "declared_ext sub =
     (case elem_object sub of None \<Rightarrow> None | Some subInfo \<Rightarrow> as_string (map_of subInfo ''ext''))"

definition declared_url :: "json \<Rightarrow> string option" where
  "declared_url sub =
     (case elem_object sub of None \<Rightarrow> None | Some subInfo \<Rightarrow> as_string (map_of subInfo ''url''))"

definition has_url :: "json \<Rightarrow> bool" where
  "has_url sub = (declared_url sub \<noteq> None)"

definition entry_url :: "json \<Rightarrow> string" where
  "entry_url sub = (case declared_url sub of None \<Rightarrow> '''' | Some url \<Rightarrow> url)"

definition entry_format :: "json \<Rightarrow> string" where
  "entry_format sub = (case declared_ext sub of None \<Rightarrow> ''unknown'' | Some ext \<Rightarrow> ext)"

definition entry_matches :: "string \<Rightarrow> json \<Rightarrow> bool" where
  "entry_matches fmt sub = (declared_ext sub = Some fmt \<and> has_url sub)"

definition has_match :: "json list \<Rightarrow> string \<Rightarrow> bool" where
  "has_match enSubs fmt = list_ex (entry_matches fmt) enSubs"

definition no_preferred_match :: "json list \<Rightarrow> bool" where
  "no_preferred_match enSubs = (find (has_match enSubs) formatPreference = None)"

section \<open>The data model (package models)\<close>

text \<open>
  A Go \<^verbatim>\<open>int\<close> identifier is an \<^typ>\<open>int\<close>: the sources only copy and compare
  identifiers. A \<^verbatim>\<open>time.Time\<close> is an opaque stamp whose zero value is 0. Fields keep their
  Go names behind a prefix for the struct. A pointer that may be \<^verbatim>\<open>nil\<close> is an option.
\<close>

type_synonym time = int

text \<open>
  A Go slice is either \<^verbatim>\<open>nil\<close> or a (possibly empty) sequence: the two are told apart
  by \<^verbatim>\<open>== nil\<close> and by the JSON encoder, but both have length 0 and both are ranged
  over zero times.
\<close>

datatype 'a slice = NilSlice | Slice "'a list"

fun elems :: "'a slice \<Rightarrow> 'a list" where
  "elems NilSlice = []"
| "elems (Slice xs) = xs"

definition len :: "'a slice \<Rightarrow> nat" where
  "len s = length (elems s)"

text \<open>\<^verbatim>\<open>append(s, x)\<close> and \<^verbatim>\<open>append(s, xs...)\<close>; appending nothing returns the slice as it is.\<close>

definition append1 :: "'a slice \<Rightarrow> 'a \<Rightarrow> 'a slice" where
  "append1 s x = Slice (elems s @ [x])"

definition append_all :: "'a slice \<Rightarrow> 'a slice \<Rightarrow> 'a slice" where
  "append_all s xs = (if elems xs = [] then s else Slice (elems s @ elems xs))"

record SourceContent =
  sc_ID :: int
  sc_Type :: string
  sc_URL :: string
  sc_Title :: string
  sc_Transcript :: string
  sc_ProcessedAt :: time
  sc_CreatedAt :: time

record CreateSourceContentRequest =
  req_Type :: string
  req_URL :: string
  req_Title :: string
  req_Transcript :: string

record Concept =
  c_ID :: int
  c_Title :: string
  c_Description :: string
  c_SourceContentID :: "int option"
  c_CreatedAt :: time
  c_UpdatedAt :: time

record QuizQuestion =
  q_ID :: int
  q_ConceptID :: int
  q_Question :: string
  q_OptionA :: string
  q_OptionB :: string
  q_OptionC :: string
  q_OptionD :: string
  q_CorrectAnswer :: string
  q_Explanation :: string
  q_CreatedAt :: time

record GeneratedContent =
  gc_ID :: int
  gc_Platform :: string
  gc_Title :: string
  gc_Body :: string
  gc_ConceptIDs :: "int slice"
  gc_Status :: string
  gc_PublishedAt :: "time option"
  gc_CreatedAt :: time
  gc_UpdatedAt :: time

text \<open>Package youtube, the types of \<^verbatim>\<open>GetVideoInfo\<close>.\<close>

record Transcript =
  t_Text :: string
  t_Language :: string

record Metadata =
  m_Title :: string
  m_Duration :: int
  m_Channel :: string

record VideoInfo =
  vi_Transcript :: "Transcript option"
  vi_Metadata :: "Metadata option"

text \<open>Package services.\<close>

record ProcessResult =
  pr_SourceContent :: "SourceContent option"
  pr_Concepts :: "Concept slice"
  pr_Quizzes :: "QuizQuestion slice"
  pr_GeneratedContent :: "GeneratedContent slice"

section \<open>The environment\<close>

text \<open>
  The database, the external tool with its HTTP download, and the derivation service are
  outside the program. Every call to one of them is an event of the trace, appended in
  the order of the calls; what the call returns is given by the environment as a function
  of the trace so far and of the call's arguments, so that two calls with the same
  arguments may return differently. Logging and the \<^verbatim>\<open>context.Context\<close> are left out.
\<close>

datatype event =
    SelectSourceContentByURL string
  | InsertSourceContent CreateSourceContentRequest
  | SelectConceptsBySourceContentID int
  | SelectQuizzesBySourceContentID int
  | SelectGeneratedContents
  | Begin
  | InsertConcept Concept
  | InsertQuizQuestion QuizQuestion
  | InsertGeneratedContent GeneratedContent
  | Commit
  | Rollback
  | GetVideoMetadata string
  | GetTranscript string
  | SendMessageWithSystem string string

type_synonym trace = "event list"

text \<open>
  \<^verbatim>\<open>DB.QueryRow(...).Scan(...)\<close> gives \<^verbatim>\<open>sql.ErrNoRows\<close>, another error, or the row.
  \<^verbatim>\<open>DB.Query(...)\<close> fails, or gives rows: each \<^verbatim>\<open>rows.Next()\<close> yields a row whose
  \<^verbatim>\<open>Scan\<close> fails or succeeds, and \<^verbatim>\<open>rows.Err()\<close> is read after the last row.
\<close>

datatype 'a row_result = ErrNoRows | RowError error | Row 'a

datatype 'a query_result = QueryError error | Rows "(error + 'a) list" "error option"

text \<open>The fields of the anonymous structs that the replies of the derivation service are decoded into.\<close>

record conceptData =
  cd_Title :: string
  cd_Description :: string

record quizData =
  qd_Question :: string
  qd_OptionA :: string
  qd_OptionB :: string
  qd_OptionC :: string
  qd_OptionD :: string
  qd_CorrectAnswer :: string
  qd_Explanation :: string

record contentData =
  ct_Title :: string
  ct_Body :: string

text \<open>
  The last four fields are library functions rather than calls: \<^verbatim>\<open>json.Unmarshal\<close> into
  each of the three reply structs, and the Unicode case tables behind
  \<^verbatim>\<open>strings.ToUpper\<close> for a string that is not pure ASCII.
\<close>

record env =
  db_select_source_by_url :: "trace \<Rightarrow> string \<Rightarrow> SourceContent row_result"
  db_insert_source :: "trace \<Rightarrow> CreateSourceContentRequest \<Rightarrow> error + SourceContent"
  db_select_concepts :: "trace \<Rightarrow> int \<Rightarrow> Concept query_result"
  db_select_quizzes :: "trace \<Rightarrow> int \<Rightarrow> QuizQuestion query_result"
  db_select_generated :: "trace \<Rightarrow> GeneratedContent query_result"
  db_begin :: "trace \<Rightarrow> error option"
  tx_insert_concept :: "trace \<Rightarrow> Concept \<Rightarrow> error + Concept"
  tx_insert_quiz :: "trace \<Rightarrow> QuizQuestion \<Rightarrow> error + QuizQuestion"
  tx_insert_generated :: "trace \<Rightarrow> GeneratedContent \<Rightarrow> error + GeneratedContent"
  tx_commit :: "trace \<Rightarrow> error option"
  yt_GetVideoMetadata :: "trace \<Rightarrow> string \<Rightarrow> error + Metadata"
  yt_GetTranscript :: "trace \<Rightarrow> string \<Rightarrow> error + Transcript"
  claude_SendMessageWithSystem :: "trace \<Rightarrow> string \<Rightarrow> string \<Rightarrow> error + string"
  unmarshal_concepts :: "string \<Rightarrow> error + conceptData list"
  unmarshal_quiz :: "string \<Rightarrow> error + quizData list"
  unmarshal_content :: "string \<Rightarrow> error + contentData"
  unicode_ToUpper :: "string \<Rightarrow> string"

section \<open>The repositories (package db)\<close>

text \<open>\<^verbatim>\<open>func GetSourceContentByURL(url string) (*models.SourceContent, error)\<close>\<close>

definition GetSourceContentByURL ::
  "env \<Rightarrow> trace \<Rightarrow> string \<Rightarrow> (error + SourceContent option) \<times> trace" where
  "GetSourceContentByURL e tr url =
     (case db_select_source_by_url e tr url of
        ErrNoRows \<Rightarrow> (Inr None, tr @ [SelectSourceContentByURL url])
      | RowError err \<Rightarrow>
          (Inl (Wrapped ''failed to query source content'' err), tr @ [SelectSourceContentByURL url])
      | Row sc \<Rightarrow> (Inr (Some sc), tr @ [SelectSourceContentByURL url]))"

text \<open>\<^verbatim>\<open>func CreateSourceContent(req models.CreateSourceContentRequest) (*models.SourceContent, error)\<close>\<close>

definition CreateSourceContent ::
  "env \<Rightarrow> trace \<Rightarrow> CreateSourceContentRequest \<Rightarrow> (error + SourceContent) \<times> trace" where
  "CreateSourceContent e tr req =
     (case db_insert_source e tr req of
        Inl err \<Rightarrow> (Inl (Wrapped ''failed to create source content'' err), tr @ [InsertSourceContent req])
      | Inr sc \<Rightarrow> (Inr sc, tr @ [InsertSourceContent req]))"

text \<open>
  The loop \<^verbatim>\<open>for rows.Next() { ... rows.Scan(...) ... append ... }\<close> shared by the three
  queries, with the slice collected so far: it stops at the first row that fails to scan.
\<close>

fun scan_rows :: "(error + 'a) list \<Rightarrow> 'a slice \<Rightarrow> error + 'a slice" where
  "scan_rows [] acc = Inr acc"
| "scan_rows (Inl err # rows) acc = Inl err"
| "scan_rows (Inr x # rows) acc = scan_rows rows (append1 acc x)"

text \<open>\<^verbatim>\<open>func GetConceptsBySourceContentID(sourceContentID int) ([]models.Concept, error)\<close>\<close>

definition GetConceptsBySourceContentID ::
  "env \<Rightarrow> trace \<Rightarrow> int \<Rightarrow> (error + Concept slice) \<times> trace" where
  "GetConceptsBySourceContentID e tr sourceContentID =
     (case db_select_concepts e tr sourceContentID of
        QueryError err \<Rightarrow>
          (Inl (Wrapped ''failed to query concepts'' err),
           tr @ [SelectConceptsBySourceContentID sourceContentID])
      | Rows rows rowsErr \<Rightarrow>
          (case scan_rows rows NilSlice of
             Inl err \<Rightarrow>
               (Inl (Wrapped ''failed to scan concept'' err),
                tr @ [SelectConceptsBySourceContentID sourceContentID])
           | Inr concepts \<Rightarrow>
               (case rowsErr of
                  Some err \<Rightarrow>
                    (Inl (Wrapped ''error iterating concepts'' err),
                     tr @ [SelectConceptsBySourceContentID sourceContentID])
                | None \<Rightarrow> (Inr concepts, tr @ [SelectConceptsBySourceContentID sourceContentID]))))"

text \<open>\<^verbatim>\<open>func GetQuizzesBySourceContentID(sourceContentID int) ([]models.QuizQuestion, error)\<close>\<close>

definition GetQuizzesBySourceContentID ::
  "env \<Rightarrow> trace \<Rightarrow> int \<Rightarrow> (error + QuizQuestion slice) \<times> trace" where
  "GetQuizzesBySourceContentID e tr sourceContentID =
     (case db_select_quizzes e tr sourceContentID of
        QueryError err \<Rightarrow>
          (Inl (Wrapped ''failed to query quiz questions'' err),
           tr @ [SelectQuizzesBySourceContentID sourceContentID])
      | Rows rows rowsErr \<Rightarrow>
          (case scan_rows rows NilSlice of
             Inl err \<Rightarrow>
               (Inl (Wrapped ''failed to scan quiz question'' err),
                tr @ [SelectQuizzesBySourceContentID sourceContentID])
           | Inr questions \<Rightarrow>
               (case rowsErr of
                  Some err \<Rightarrow>
                    (Inl (Wrapped ''error iterating quiz questions'' err),
                     tr @ [SelectQuizzesBySourceContentID sourceContentID])
                | None \<Rightarrow> (Inr questions, tr @ [SelectQuizzesBySourceContentID sourceContentID]))))"

text \<open>
  \<^verbatim>\<open>func GetGeneratedContentByConceptIDs(conceptIDs []int) ([]models.GeneratedContent, error)\<close>.
  The filter is the two nested loops of the source: for every target id, the row's ids
  are searched and the row is appended at the first hit; the \<^verbatim>\<open>break\<close> leaves the inner
  loop only, so the outer loop goes on to the next target id.
\<close>

fun filter_inner :: "int \<Rightarrow> int list \<Rightarrow> bool" where
  "filter_inner targetID [] = False"
| "filter_inner targetID (contentID # contentIDs) =
     (if contentID = targetID then True else filter_inner targetID contentIDs)"

fun filter_outer :: "int list \<Rightarrow> GeneratedContent \<Rightarrow> GeneratedContent slice \<Rightarrow> GeneratedContent slice" where
  "filter_outer [] gc contents = contents"
| "filter_outer (targetID # targetIDs) gc contents =
     (if filter_inner targetID (elems (gc_ConceptIDs gc))
      then filter_outer targetIDs gc (append1 contents gc)
      else filter_outer targetIDs gc contents)"

fun scan_filter_rows ::
  "int list \<Rightarrow> (error + GeneratedContent) list \<Rightarrow> GeneratedContent slice \<Rightarrow> error + GeneratedContent slice" where
  "scan_filter_rows conceptIDs [] contents = Inr contents"
| "scan_filter_rows conceptIDs (Inl err # rows) contents = Inl err"
| "scan_filter_rows conceptIDs (Inr gc # rows) contents =
     scan_filter_rows conceptIDs rows (filter_outer conceptIDs gc contents)"

definition GetGeneratedContentByConceptIDs ::
  "env \<Rightarrow> trace \<Rightarrow> int slice \<Rightarrow> (error + GeneratedContent slice) \<times> trace" where
  "GetGeneratedContentByConceptIDs e tr conceptIDs =
     (case db_select_generated e tr of
        QueryError err \<Rightarrow>
          (Inl (Wrapped ''failed to query generated contents'' err), tr @ [SelectGeneratedContents])
      | Rows rows rowsErr \<Rightarrow>
          (case scan_filter_rows (elems conceptIDs) rows NilSlice of
             Inl err \<Rightarrow>
               (Inl (Wrapped ''failed to scan generated content'' err), tr @ [SelectGeneratedContents])
           | Inr contents \<Rightarrow>
               (case rowsErr of
                  Some err \<Rightarrow>
                    (Inl (Wrapped ''error iterating generated contents'' err),
                     tr @ [SelectGeneratedContents])
                | None \<Rightarrow> (Inr contents, tr @ [SelectGeneratedContents]))))"

text \<open>
  The insert loop of the three batch functions inside the transaction, with the insert of
  the table and its event as parameters: every row is inserted by one
  \<^verbatim>\<open>tx.QueryRow(...).Scan(...)\<close>, and the loop returns at the first failure.
\<close>

fun tx_insert_rows ::
  "(trace \<Rightarrow> 'a \<Rightarrow> error + 'a) \<Rightarrow> ('a \<Rightarrow> event) \<Rightarrow> trace \<Rightarrow> 'a list \<Rightarrow> 'a list
   \<Rightarrow> (error + 'a list) \<times> trace" where
  "tx_insert_rows ins ev tr [] created = (Inr created, tr)"
| "tx_insert_rows ins ev tr (x # xs) created =
     (case ins tr x of
        Inl err \<Rightarrow> (Inl err, tr @ [ev x])
      | Inr c \<Rightarrow> tx_insert_rows ins ev (tr @ [ev x]) xs (created @ [c]))"

text \<open>
  The body shared by the three batch functions, with the message of the row error as a
  parameter. An empty input returns before \<^verbatim>\<open>DB.Begin()\<close>. The deferred
  \<^verbatim>\<open>tx.Rollback()\<close> is registered once the transaction has begun and runs on every
  return after that, also after a commit.
\<close>

definition create_batch ::
  "(trace \<Rightarrow> 'a \<Rightarrow> error + 'a) \<Rightarrow> ('a \<Rightarrow> event) \<Rightarrow> string \<Rightarrow> env \<Rightarrow> trace \<Rightarrow> 'a slice
   \<Rightarrow> (error + 'a slice) \<times> trace" where
  "create_batch ins ev row_message e tr xs =
     (if len xs = 0 then (Inr (Slice []), tr)
      else
        (case db_begin e tr of
           Some err \<Rightarrow> (Inl (Wrapped ''failed to begin transaction'' err), tr @ [Begin])
         | None \<Rightarrow>
             (case tx_insert_rows ins ev (tr @ [Begin]) (elems xs) [] of
                (Inl err, tr1) \<Rightarrow> (Inl (Wrapped row_message err), tr1 @ [Rollback])
              | (Inr created, tr1) \<Rightarrow>
                  (case tx_commit e tr1 of
                     Some err \<Rightarrow>
                       (Inl (Wrapped ''failed to commit transaction'' err), tr1 @ [Commit, Rollback])
                   | None \<Rightarrow> (Inr (Slice created), tr1 @ [Commit, Rollback])))))"

text \<open>\<^verbatim>\<open>func CreateConceptsBatch(concepts []models.Concept) ([]models.Concept, error)\<close>\<close>

definition CreateConceptsBatch ::
  "env \<Rightarrow> trace \<Rightarrow> Concept slice \<Rightarrow> (error + Concept slice) \<times> trace" where
  "CreateConceptsBatch e tr concepts =
     create_batch (tx_insert_concept e) InsertConcept ''failed to create concept'' e tr concepts"

text \<open>\<^verbatim>\<open>func CreateQuizBatch(questions []models.QuizQuestion) ([]models.QuizQuestion, error)\<close>\<close>

definition CreateQuizBatch ::
  "env \<Rightarrow> trace \<Rightarrow> QuizQuestion slice \<Rightarrow> (error + QuizQuestion slice) \<times> trace" where
  "CreateQuizBatch e tr questions =
     create_batch (tx_insert_quiz e) InsertQuizQuestion ''failed to create quiz question'' e tr questions"

text \<open>\<^verbatim>\<open>func CreateGeneratedContentBatch(contents []models.GeneratedContent) ([]models.GeneratedContent, error)\<close>\<close>

definition CreateGeneratedContentBatch ::
  "env \<Rightarrow> trace \<Rightarrow> GeneratedContent slice \<Rightarrow> (error + GeneratedContent slice) \<times> trace" where
  "CreateGeneratedContentBatch e tr contents =
     create_batch (tx_insert_generated e) InsertGeneratedContent
       ''failed to create generated content'' e tr contents"

section \<open>The derivation service (package services, ClaudeService)\<close>

definition LF :: string where
  "LF = [CHR 0x0A]"

text \<open>The verb \<^verbatim>\<open>%d\<close> of \<^verbatim>\<open>fmt.Sprintf\<close>: the decimal digits, after a minus sign below zero.\<close>

fun digits :: "nat \<Rightarrow> string" where
  "digits n =
     (if n < 10 then [char_of (48 + n)] else digits (n div 10) @ [char_of (48 + n mod 10)])"

declare digits.simps [simp del]

definition FormatInt :: "int \<Rightarrow> string" where
  "FormatInt i = (if i < 0 then CHR ''-'' # digits (nat (- i)) else digits (nat i))"

text \<open>
  \<^verbatim>\<open>strings.ToUpper(s)\<close>: a string of ASCII bytes has its letters a to z mapped bytewise;
  any other string goes through the Unicode tables, which the environment holds.
\<close>

definition ToUpper :: "env \<Rightarrow> string \<Rightarrow> string" where
  "ToUpper e s =
     (if list_all (\<lambda>c. (of_char c :: nat) < 128) s then map upper_ascii s
      else unicode_ToUpper e s)"

text \<open>The fields \<^verbatim>\<open>conceptsMin\<close> and \<^verbatim>\<open>conceptsMax\<close> of the service; its client is the environment.\<close>

record ClaudeService =
  svc_conceptsMin :: int
  svc_conceptsMax :: int

text \<open>The prompts, as the \<^verbatim>\<open>fmt.Sprintf\<close> calls build them.\<close>

definition ExtractConcepts_systemPrompt :: string where
  "ExtractConcepts_systemPrompt =
     ''You are an expert educator extracting core learnable concepts from content.''"

definition GenerateQuiz_systemPrompt :: string where
  "GenerateQuiz_systemPrompt =
     ''You are an expert educator creating effective quiz questions that test understanding and application, not just recall.''"

definition linkedin_systemPrompt :: string where
  "linkedin_systemPrompt =
     ''You are a consultant writing a LinkedIn post demonstrating expertise to attract clients.''"

definition twitter_systemPrompt :: string where
  "twitter_systemPrompt =
     ''You are a consultant creating an engaging X (Twitter) thread to demonstrate expertise.''"

definition blog_systemPrompt :: string where
  "blog_systemPrompt =
     ''You are a consultant writing an educational blog post to demonstrate deep expertise.''"

definition email_systemPrompt :: string where
  "email_systemPrompt =
     ''You are a consultant creating valuable content to share with your network.''"

definition ExtractConcepts_userPrompt :: "int \<Rightarrow> int \<Rightarrow> string \<Rightarrow> string" where
  \<open>ExtractConcepts_userPrompt conceptsMin conceptsMax transcript =
      ''Analyze this transcript and extract '' @ FormatInt (conceptsMin) @ ''-'' @ FormatInt (conceptsMax) @ '' concepts that someone should learn.'' @ LF @
      LF @
      ''For each concept:'' @ LF @
      ''- Title: Clear, concise name (max 100 chars)'' @ LF @
      ''- Description: Detailed explanation (2-4 sentences, focus on practical understanding)'' @ LF @
      LF @
      ''Focus on:'' @ LF @
      ''- Fundamental ideas and mental models'' @ LF @
      ''- Actionable techniques they can apply'' @ LF @
      ''- Key insights worth remembering'' @ LF @
      LF @
      ''Return ONLY a JSON array, no markdown formatting, no code blocks:'' @ LF @
      ''[{"title": "...", "description": "..."}]'' @ LF @
      LF @
      ''Transcript:'' @ LF @
      transcript\<close>

definition GenerateQuiz_userPrompt :: "string \<Rightarrow> string \<Rightarrow> string" where
  \<open>GenerateQuiz_userPrompt title description =
      ''Generate 2-3 quiz questions for this concept to test understanding and application.'' @ LF @
      LF @
      ''Concept:'' @ LF @
      ''Title: '' @ title @ LF @
      ''Description: '' @ description @ LF @
      LF @
      ''For each question:'' @ LF @
      ''- Question: Tests understanding or application (avoid simple recall)'' @ LF @
      ''- 4 options (A, B, C, D) - make them plausible'' @ LF @
      ''- Correct answer (A, B, C, or D)'' @ LF @
      ''- Explanation: Why correct answer is right and others are wrong (2-3 sentences)'' @ LF @
      LF @
      ''Return ONLY a JSON array, no markdown formatting, no code blocks:'' @ LF @
      ''['' @ LF @
      ''  {'' @ LF @
      ''    "question": "...",'' @ LF @
      ''    "option_a": "...",'' @ LF @
      ''    "option_b": "...",'' @ LF @
      ''    "option_c": "...",'' @ LF @
      ''    "option_d": "...",'' @ LF @
      ''    "correct_answer": "B",'' @ LF @
      ''    "explanation": "..."'' @ LF @
      ''  }'' @ LF @
      '']''\<close>

definition linkedin_userPrompt :: "string \<Rightarrow> string" where
  \<open>linkedin_userPrompt conceptsText =
      ''Create a LinkedIn case study post using these concepts:'' @ LF @
      LF @
      conceptsText @ LF @
      LF @
      ''Format:'' @ LF @
      ''- Hook: Start with a relatable client problem or situation'' @ LF @
      ''- Body: Show how you used these concepts to solve it (tell a story)'' @ LF @
      ''- Result: Share measurable outcomes or clear benefits'' @ LF @
      ''- Call-to-action: Invite discussion or connections'' @ LF @
      LF @
      ''Tone: Professional, credible, approachable (not overly salesy)'' @ LF @
      ''Length: 1200-1500 characters'' @ LF @
      LF @
      ''Return as JSON:'' @ LF @
      ''{"title": "...", "body": "..."}''\<close>

definition twitter_userPrompt :: "string \<Rightarrow> string" where
  \<open>twitter_userPrompt conceptsText =
      ''Create a 5-tweet thread about these concepts:'' @ LF @
      LF @
      conceptsText @ LF @
      LF @
      ''Structure:'' @ LF @
      ''- Tweet 1: Hook - why this matters (create curiosity)'' @ LF @
      ''- Tweets 2-4: Key insights from the concepts (one insight per tweet)'' @ LF @
      ''- Tweet 5: Actionable takeaway + CTA'' @ LF @
      LF @
      ''Tone: Casual but authoritative, conversational'' @ LF @
      ''Length: Each tweet under 280 characters'' @ LF @
      ''Use line breaks for readability'' @ LF @
      LF @
      ''Return as JSON:'' @ LF @
      ''{"title": "Thread title", "body": "1/'' @ [CHR 0x5C] @ ''n[tweet 1]'' @ [CHR 0x5C] @ ''n'' @ [CHR 0x5C] @ ''n2/'' @ [CHR 0x5C] @ ''n[tweet 2]'' @ [CHR 0x5C] @ ''n'' @ [CHR 0x5C] @ ''n..."}''\<close>

definition blog_userPrompt :: "string \<Rightarrow> string" where
  \<open>blog_userPrompt conceptsText =
      ''Write a comprehensive blog post tutorial using these concepts:'' @ LF @
      LF @
      conceptsText @ LF @
      LF @
      ''Structure:'' @ LF @
      ''- Introduction: Why this matters (set context, create interest)'' @ LF @
      ''- Section per concept:'' @ LF @
      ''  * Clear explanation'' @ LF @
      ''  * How to apply it (with examples)'' @ LF @
      ''  * Common mistakes to avoid'' @ LF @
      ''- Conclusion: Summary + next steps for the reader'' @ LF @
      LF @
      ''Tone: Teaching, detailed, actionable (position yourself as the expert guide)'' @ LF @
      ''Length: 800-1200 words'' @ LF @
      ''Use Markdown formatting (headings, lists, etc.)'' @ LF @
      LF @
      ''Return as JSON:'' @ LF @
      ''{"title": "...", "body": "..."}''\<close>

definition email_userPrompt :: "string \<Rightarrow> string" where
  \<open>email_userPrompt conceptsText =
      ''Create an email newsletter about these concepts:'' @ LF @
      LF @
      conceptsText @ LF @
      LF @
      ''Format:'' @ LF @
      ''- Subject line (compelling, specific)'' @ LF @
      ''- Introduction (1-2 sentences)'' @ LF @
      ''- Key insights (bullet points)'' @ LF @
      ''- Conclusion with CTA'' @ LF @
      LF @
      ''Tone: Friendly, professional, valuable'' @ LF @
      ''Length: 400-600 words'' @ LF @
      LF @
      ''Return as JSON:'' @ LF @
      ''{"title": "Subject line", "body": "Email body"}''\<close>

text \<open>
  \<^verbatim>\<open>func ParseJSONResponse(responseText string, target interface{}) error\<close> (package
  claude): the text inside the first fenced block, when there is one, is what is decoded;
  the decoder of the target's type is the parameter. \<open>fence\<close> is the three backquotes.
\<close>

definition fence :: string where
  "fence = [CHR 0x60, CHR 0x60, CHR 0x60]"

definition ParseJSONResponse :: "(string \<Rightarrow> error + 'a) \<Rightarrow> string \<Rightarrow> error + 'a" where
  "ParseJSONResponse unmarshal responseText =
     (let text0 = responseText;
          text1 =
            (if Contains text0 (fence @ ''json'') then
               (case Index text0 (fence @ ''json'') of
                  None \<Rightarrow> text0
                | Some i \<Rightarrow>
                    (let start = i + length (fence @ ''json'')
                     in case Index (drop start text0) fence of
                          None \<Rightarrow> text0
                        | Some endIdx \<Rightarrow> take endIdx (drop start text0)))
             else if Contains text0 fence then
               (case Index text0 fence of
                  None \<Rightarrow> text0
                | Some i \<Rightarrow>
                    (let start0 = i + length fence;
                         start =
                           (case Index (drop start0 text0) LF of
                              None \<Rightarrow> start0
                            | Some newlineIdx \<Rightarrow> start0 + (newlineIdx + 1))
                     in case Index (drop start text0) fence of
                          None \<Rightarrow> text0
                        | Some endIdx \<Rightarrow> take endIdx (drop start text0)))
             else text0)
      in case unmarshal text1 of
           Inl err \<Rightarrow> Inl (Wrapped ''failed to parse JSON response'' err)
         | Inr v \<Rightarrow> Inr v)"

text \<open>\<^verbatim>\<open>func (s *ClaudeService) ExtractConcepts(ctx, transcript string, sourceContentID int) ([]models.Concept, error)\<close>\<close>

definition concept_of :: "int \<Rightarrow> conceptData \<Rightarrow> Concept" where
  "concept_of sourceContentID c =
     \<lparr>c_ID = 0, c_Title = cd_Title c, c_Description = cd_Description c,
      c_SourceContentID = Some sourceContentID, c_CreatedAt = 0, c_UpdatedAt = 0\<rparr>"

definition ExtractConcepts ::
  "env \<Rightarrow> ClaudeService \<Rightarrow> trace \<Rightarrow> string \<Rightarrow> int \<Rightarrow> (error + Concept slice) \<times> trace" where
  "ExtractConcepts e s tr transcript sourceContentID =
     (let systemPrompt = ExtractConcepts_systemPrompt;
          userPrompt = ExtractConcepts_userPrompt (svc_conceptsMin s) (svc_conceptsMax s) transcript;
          tr1 = tr @ [SendMessageWithSystem systemPrompt userPrompt]
      in case claude_SendMessageWithSystem e tr systemPrompt userPrompt of
           Inl err \<Rightarrow> (Inl (Wrapped ''failed to extract concepts'' err), tr1)
         | Inr responseText \<Rightarrow>
             (case ParseJSONResponse (unmarshal_concepts e) responseText of
                Inl err \<Rightarrow> (Inl (Wrapped ''failed to parse concept JSON'' err), tr1)
              | Inr conceptData \<Rightarrow> (Inr (Slice (map (concept_of sourceContentID) conceptData)), tr1)))"

text \<open>
  \<^verbatim>\<open>func (s *ClaudeService) GenerateQuiz(ctx, concept models.Concept) ([]models.QuizQuestion, error)\<close>.
  The answer letter of the reply is put in upper case and stored; nothing else is done to it.
\<close>

definition question_of :: "env \<Rightarrow> Concept \<Rightarrow> quizData \<Rightarrow> QuizQuestion" where
  "question_of e concept q =
     \<lparr>q_ID = 0, q_ConceptID = c_ID concept, q_Question = qd_Question q,
      q_OptionA = qd_OptionA q, q_OptionB = qd_OptionB q, q_OptionC = qd_OptionC q,
      q_OptionD = qd_OptionD q, q_CorrectAnswer = ToUpper e (qd_CorrectAnswer q),
      q_Explanation = qd_Explanation q, q_CreatedAt = 0\<rparr>"

definition GenerateQuiz ::
  "env \<Rightarrow> trace \<Rightarrow> Concept \<Rightarrow> (error + QuizQuestion slice) \<times> trace" where
  "GenerateQuiz e tr concept =
     (let systemPrompt = GenerateQuiz_systemPrompt;
          userPrompt = GenerateQuiz_userPrompt (c_Title concept) (c_Description concept);
          tr1 = tr @ [SendMessageWithSystem systemPrompt userPrompt]
      in case claude_SendMessageWithSystem e tr systemPrompt userPrompt of
           Inl err \<Rightarrow> (Inl (Wrapped ''failed to generate quiz'' err), tr1)
         | Inr responseText \<Rightarrow>
             (case ParseJSONResponse (unmarshal_quiz e) responseText of
                Inl err \<Rightarrow> (Inl (Wrapped ''failed to parse quiz JSON'' err), tr1)
              | Inr quizData \<Rightarrow> (Inr (Slice (map (question_of e concept) quizData)), tr1)))"

text \<open>\<^verbatim>\<open>func (s *ClaudeService) getContentPrompts(platform, conceptsText string) (systemPrompt, userPrompt string)\<close>\<close>

definition getContentPrompts :: "string \<Rightarrow> string \<Rightarrow> string \<times> string" where
  "getContentPrompts platform conceptsText =
     (if platform = ''linkedin'' then (linkedin_systemPrompt, linkedin_userPrompt conceptsText)
      else if platform = ''twitter'' then (twitter_systemPrompt, twitter_userPrompt conceptsText)
      else if platform = ''blog'' then (blog_systemPrompt, blog_userPrompt conceptsText)
      else (email_systemPrompt, email_userPrompt conceptsText))"

text \<open>\<^verbatim>\<open>func (s *ClaudeService) generateTitleFromConcepts(concepts []models.Concept) string\<close>\<close>

fun generateTitleFromConcepts :: "Concept list \<Rightarrow> string" where
  "generateTitleFromConcepts [] = ''Generated Content''"
| "generateTitleFromConcepts [c] = c_Title c"
| "generateTitleFromConcepts (c # cs) = c_Title c @ '' and More''"

text \<open>
  \<^verbatim>\<open>func (s *ClaudeService) GenerateContent(ctx, platform string, concepts []models.Concept) (*models.GeneratedContent, error)\<close>.
  The first loop writes one numbered line per concept. A reply that does not decode is
  not a failure: it becomes the body, under a title made from the concepts.
\<close>

fun conceptsText_from :: "nat \<Rightarrow> Concept list \<Rightarrow> string" where
  "conceptsText_from i [] = []"
| "conceptsText_from i (c # cs) =
     FormatInt (int i + 1) @ ''. '' @ c_Title c @ '': '' @ c_Description c @ LF @
     conceptsText_from (Suc i) cs"

definition GenerateContent ::
  "env \<Rightarrow> trace \<Rightarrow> string \<Rightarrow> Concept slice \<Rightarrow> (error + GeneratedContent) \<times> trace" where
  "GenerateContent e tr platform concepts =
     (let conceptsText = conceptsText_from 0 (elems concepts);
          (systemPrompt, userPrompt) = getContentPrompts platform conceptsText;
          tr1 = tr @ [SendMessageWithSystem systemPrompt userPrompt]
      in case claude_SendMessageWithSystem e tr systemPrompt userPrompt of
           Inl err \<Rightarrow> (Inl (Wrapped ''failed to generate content'' err), tr1)
         | Inr responseText \<Rightarrow>
             (let contentData =
                    (case ParseJSONResponse (unmarshal_content e) responseText of
                       Inl err \<Rightarrow>
                         \<lparr>ct_Title = generateTitleFromConcepts (elems concepts), ct_Body = responseText\<rparr>
                     | Inr parsed \<Rightarrow> parsed);
                  conceptIDs = Slice (map c_ID (elems concepts))
              in (Inr \<lparr>gc_ID = 0, gc_Platform = platform, gc_Title = ct_Title contentData,
                       gc_Body = ct_Body contentData, gc_ConceptIDs = conceptIDs,
                       gc_Status = ''draft'', gc_PublishedAt = None, gc_CreatedAt = 0,
                       gc_UpdatedAt = 0\<rparr>, tr1)))"

section \<open>The pipeline (package services, SourceContentService)\<close>

text \<open>
  \<^verbatim>\<open>func (c *Client) GetVideoInfo(ctx, videoURL string) (*VideoInfo, error)\<close> (package
  youtube). The metadata and the transcript are fetched by the external tool and over
  HTTP: both fetches are calls to the environment. Go returns a pointer and an error, and
  here both can be set at once, so the result is a pair of options. A runtime panic is
  the error \<open>Panic\<close> of the model.
\<close>

definition Panic :: error where
  "Panic = ErrorString ''panic: runtime error: invalid memory address or nil pointer dereference''"

definition GetVideoInfo ::
  "env \<Rightarrow> trace \<Rightarrow> string \<Rightarrow> (VideoInfo option \<times> error option) \<times> trace" where
  "GetVideoInfo e tr videoURL =
     (case yt_GetVideoMetadata e tr videoURL of
        Inl err \<Rightarrow> ((None, Some err), tr @ [GetVideoMetadata videoURL])
      | Inr metadata \<Rightarrow>
          (case yt_GetTranscript e (tr @ [GetVideoMetadata videoURL]) videoURL of
             Inl err \<Rightarrow>
               ((Some \<lparr>vi_Transcript = None, vi_Metadata = Some metadata\<rparr>,
                 Some (Wrapped ''got metadata but transcript failed'' err)),
                tr @ [GetVideoMetadata videoURL, GetTranscript videoURL])
           | Inr transcript \<Rightarrow>
               ((Some \<lparr>vi_Transcript = Some transcript, vi_Metadata = Some metadata\<rparr>, None),
                tr @ [GetVideoMetadata videoURL, GetTranscript videoURL])))"

text \<open>
  \<^verbatim>\<open>func (s *SourceContentService) getExistingProcessResult(ctx, sourceContent) (*ProcessResult, error)\<close>:
  a read that fails gives an empty collection; the generated content is only read when
  there is a concept, and stays \<^verbatim>\<open>nil\<close> otherwise.
\<close>

definition getExistingProcessResult ::
  "env \<Rightarrow> trace \<Rightarrow> SourceContent \<Rightarrow> (error + ProcessResult) \<times> trace" where
  "getExistingProcessResult e tr sourceContent =
     (let (got_concepts, tr1) = GetConceptsBySourceContentID e tr (sc_ID sourceContent);
          concepts = (case got_concepts of Inl err \<Rightarrow> Slice [] | Inr cs \<Rightarrow> cs);
          (got_quizzes, tr2) = GetQuizzesBySourceContentID e tr1 (sc_ID sourceContent);
          quizzes = (case got_quizzes of Inl err \<Rightarrow> Slice [] | Inr qs \<Rightarrow> qs);
          (generatedContent, tr3) =
            (if len concepts > 0 then
               (let conceptIDs = Slice (map c_ID (elems concepts))
                in case GetGeneratedContentByConceptIDs e tr2 conceptIDs of
                     (Inl err, tr3) \<Rightarrow> (Slice [], tr3)
                   | (Inr content, tr3) \<Rightarrow> (content, tr3))
             else (NilSlice, tr2))
      in (Inr \<lparr>pr_SourceContent = Some sourceContent, pr_Concepts = concepts,
               pr_Quizzes = quizzes, pr_GeneratedContent = generatedContent\<rparr>, tr3))"

text \<open>
  Step 5 of \<^verbatim>\<open>ProcessYouTubeURL\<close>: the loop over the saved concepts (a concept whose
  quiz fails is skipped), then the batch is saved when it is not empty.
\<close>

fun quiz_loop :: "env \<Rightarrow> trace \<Rightarrow> Concept list \<Rightarrow> QuizQuestion slice \<Rightarrow> QuizQuestion slice \<times> trace" where
  "quiz_loop e tr [] allQuizzes = (allQuizzes, tr)"
| "quiz_loop e tr (concept # concepts) allQuizzes =
     (case GenerateQuiz e tr concept of
        (Inl err, tr1) \<Rightarrow> quiz_loop e tr1 concepts allQuizzes
      | (Inr quizzes, tr1) \<Rightarrow> quiz_loop e tr1 concepts (append_all allQuizzes quizzes))"

definition quiz_step :: "env \<Rightarrow> trace \<Rightarrow> Concept slice \<Rightarrow> QuizQuestion slice \<times> trace" where
  "quiz_step e tr savedConcepts =
     (let (allQuizzes, tr1) = quiz_loop e tr (elems savedConcepts) NilSlice
      in if len allQuizzes > 0 then
           (case CreateQuizBatch e tr1 allQuizzes of
              (Inl err, tr2) \<Rightarrow> (Slice [], tr2)
            | (Inr savedQuizzes, tr2) \<Rightarrow> (savedQuizzes, tr2))
         else (allQuizzes, tr1))"

text \<open>
  Step 6: the loop over the three platforms (a platform whose generation fails is
  skipped), then the batch is saved when it is not empty.
\<close>

definition platforms :: "string list" where
  "platforms = [''linkedin'', ''twitter'', ''blog'']"

fun content_loop ::
  "env \<Rightarrow> trace \<Rightarrow> string list \<Rightarrow> Concept slice \<Rightarrow> GeneratedContent slice
   \<Rightarrow> GeneratedContent slice \<times> trace" where
  "content_loop e tr [] savedConcepts generatedContents = (generatedContents, tr)"
| "content_loop e tr (platform # rest) savedConcepts generatedContents =
     (case GenerateContent e tr platform savedConcepts of
        (Inl err, tr1) \<Rightarrow> content_loop e tr1 rest savedConcepts generatedContents
      | (Inr content, tr1) \<Rightarrow>
          content_loop e tr1 rest savedConcepts (append1 generatedContents content))"

definition content_step :: "env \<Rightarrow> trace \<Rightarrow> Concept slice \<Rightarrow> GeneratedContent slice \<times> trace" where
  "content_step e tr savedConcepts =
     (let (generatedContents, tr1) = content_loop e tr platforms savedConcepts NilSlice
      in if len generatedContents > 0 then
           (case CreateGeneratedContentBatch e tr1 generatedContents of
              (Inl err, tr2) \<Rightarrow> (Slice [], tr2)
            | (Inr savedContent, tr2) \<Rightarrow> (savedContent, tr2))
         else (generatedContents, tr1))"

text \<open>The result of the two early returns after the source content was saved.\<close>

definition source_only :: "SourceContent \<Rightarrow> ProcessResult" where
  "source_only sourceContent =
     \<lparr>pr_SourceContent = Some sourceContent, pr_Concepts = Slice [], pr_Quizzes = Slice [],
      pr_GeneratedContent = Slice []\<rparr>"

text \<open>\<^verbatim>\<open>func (s *SourceContentService) ProcessYouTubeURL(ctx, url string) (*ProcessResult, error)\<close>\<close>

definition ProcessYouTubeURL ::
  "env \<Rightarrow> ClaudeService \<Rightarrow> trace \<Rightarrow> string \<Rightarrow> (error + ProcessResult) \<times> trace" where
  "ProcessYouTubeURL e s tr url =
     (case GetSourceContentByURL e tr url of
        (Inl err, tr1) \<Rightarrow> (Inl (Wrapped ''failed to check for duplicates'' err), tr1)
      | (Inr (Some existing), tr1) \<Rightarrow> getExistingProcessResult e tr1 existing
      | (Inr None, tr1) \<Rightarrow>
          (case GetVideoInfo e tr1 url of
             ((got, Some err), tr2) \<Rightarrow> (Inl (Wrapped ''failed to fetch YouTube video'' err), tr2)
           | ((None, None), tr2) \<Rightarrow> (Inl Panic, tr2)
           | ((Some videoInfo, None), tr2) \<Rightarrow>
               (case vi_Transcript videoInfo of
                  None \<Rightarrow> (Inl (ErrorString ''no transcript available for this video''), tr2)
                | Some transcript \<Rightarrow>
                    (case vi_Metadata videoInfo of
                       None \<Rightarrow> (Inl Panic, tr2)
                     | Some metadata \<Rightarrow>
                         (case CreateSourceContent e tr2
                                 \<lparr>req_Type = ''youtube'', req_URL = url,
                                  req_Title = m_Title metadata,
                                  req_Transcript = t_Text transcript\<rparr> of
                            (Inl err, tr3) \<Rightarrow> (Inl (Wrapped ''failed to save source content'' err), tr3)
                          | (Inr sourceContent, tr3) \<Rightarrow>
                              (case ExtractConcepts e s tr3 (t_Text transcript) (sc_ID sourceContent) of
                                 (Inl err, tr4) \<Rightarrow> (Inr (source_only sourceContent), tr4)
                               | (Inr concepts, tr4) \<Rightarrow>
                                   (case CreateConceptsBatch e tr4 concepts of
                                      (Inl err, tr5) \<Rightarrow> (Inr (source_only sourceContent), tr5)
                                    | (Inr savedConcepts, tr5) \<Rightarrow>
                                        (let (allQuizzes, tr6) = quiz_step e tr5 savedConcepts;
                                             (generatedContents, tr7) = content_step e tr6 savedConcepts
                                         in (Inr \<lparr>pr_SourceContent = Some sourceContent,
                                                  pr_Concepts = savedConcepts,
                                                  pr_Quizzes = allQuizzes,
                                                  pr_GeneratedContent = generatedContents\<rparr>,
                                             tr7)))))))))"

text \<open>The four answer letters of a quiz question.\<close>

definition answer_letters :: "string list" where
  "answer_letters = [''A'', ''B'', ''C'', ''D'']"

text \<open>
  The events of transcript acquisition (the external tool and its download) and of the
  derivation service; the other events are calls to the store.
\<close>

fun external_call :: "event \<Rightarrow> bool" where
  "external_call (GetVideoMetadata videoURL) = True"
| "external_call (GetTranscript videoURL) = True"
| "external_call (SendMessageWithSystem systemPrompt userPrompt) = True"
| "external_call ev = False"

section \<open>Example environments\<close>

text \<open>
  Concrete environments at which the theorems below are instantiated. In \<open>example_env\<close>
  nothing is stored yet and every call succeeds: a row that is inserted comes back with
  the length of the trace as its identifier, the service replies with a fixed text, and
  the decoders give one concept, one question (answer letter \<open>b\<close>) and one piece of
  content whatever the text is.
\<close>

definition example_source :: SourceContent where
  "example_source =
     \<lparr>sc_ID = 1, sc_Type = ''youtube'', sc_URL = ''https://youtu.be/abc'', sc_Title = ''A talk'',
      sc_Transcript = ''Hello world'', sc_ProcessedAt = 0, sc_CreatedAt = 0\<rparr>"

definition example_concept :: "int \<Rightarrow> Concept" where
  "example_concept i =
     \<lparr>c_ID = i, c_Title = ''T'', c_Description = ''D'', c_SourceContentID = Some 1,
      c_CreatedAt = 0, c_UpdatedAt = 0\<rparr>"

definition example_content :: GeneratedContent where
  "example_content =
     \<lparr>gc_ID = 7, gc_Platform = ''blog'', gc_Title = ''Post'', gc_Body = ''Body'',
      gc_ConceptIDs = Slice [1, 2], gc_Status = ''draft'', gc_PublishedAt = None,
      gc_CreatedAt = 0, gc_UpdatedAt = 0\<rparr>"

definition example_quizData :: "string \<Rightarrow> quizData" where
  "example_quizData answer =
     \<lparr>qd_Question = ''Q'', qd_OptionA = ''1'', qd_OptionB = ''2'', qd_OptionC = ''3'',
      qd_OptionD = ''4'', qd_CorrectAnswer = answer, qd_Explanation = ''X''\<rparr>"

definition example_env :: env where
  "example_env =
     \<lparr>db_select_source_by_url = (\<lambda>tr url. ErrNoRows),
      db_insert_source = (\<lambda>tr req.
        Inr \<lparr>sc_ID = 1, sc_Type = req_Type req, sc_URL = req_URL req, sc_Title = req_Title req,
             sc_Transcript = req_Transcript req, sc_ProcessedAt = 0, sc_CreatedAt = 0\<rparr>),
      db_select_concepts = (\<lambda>tr sourceContentID. Rows [] None),
      db_select_quizzes = (\<lambda>tr sourceContentID. Rows [] None),
      db_select_generated = (\<lambda>tr. Rows [] None),
      db_begin = (\<lambda>tr. None),
      tx_insert_concept = (\<lambda>tr c. Inr (c\<lparr>c_ID := int (length tr)\<rparr>)),
      tx_insert_quiz = (\<lambda>tr q. Inr (q\<lparr>q_ID := int (length tr)\<rparr>)),
      tx_insert_generated = (\<lambda>tr g. Inr (g\<lparr>gc_ID := int (length tr)\<rparr>)),
      tx_commit = (\<lambda>tr. None),
      yt_GetVideoMetadata = (\<lambda>tr url. Inr \<lparr>m_Title = ''A talk'', m_Duration = 60, m_Channel = ''C''\<rparr>),
      yt_GetTranscript = (\<lambda>tr url. Inr \<lparr>t_Text = ''Hello world'', t_Language = ''en''\<rparr>),
      claude_SendMessageWithSystem = (\<lambda>tr systemPrompt userPrompt. Inr ''[]''),
      unmarshal_concepts = (\<lambda>text. Inr [\<lparr>cd_Title = ''T'', cd_Description = ''D''\<rparr>]),
      unmarshal_quiz = (\<lambda>text. Inr [example_quizData ''b'']),
      unmarshal_content = (\<lambda>text. Inr \<lparr>ct_Title = ''Post'', ct_Body = ''Body''\<rparr>),
      unicode_ToUpper = (\<lambda>s. s)\<rparr>"

text \<open>The store holds one piece of generated content, made from the concepts 1 and 2.\<close>

definition stored_content_env :: env where
  "stored_content_env = example_env\<lparr>db_select_generated := (\<lambda>tr. Rows [Inr example_content] None)\<rparr>"

text \<open>
  The url was processed before: the source content, two concepts of it and the content
  made from them are stored.
\<close>

definition processed_env :: env where
  "processed_env =
     example_env
       \<lparr>db_select_source_by_url := (\<lambda>tr url. Row example_source),
        db_select_concepts := (\<lambda>tr sourceContentID. Rows [Inr (example_concept 1), Inr (example_concept 2)] None),
        db_select_generated := (\<lambda>tr. Rows [Inr example_content] None)\<rparr>"

text \<open>The derivation service returns no content (\<^verbatim>\<open>ErrEmptyResponse\<close> of package claude).\<close>

definition ErrEmptyResponse :: error where
  "ErrEmptyResponse = ErrorString ''Claude returned empty response''"

definition empty_response_env :: env where
  "empty_response_env =
     example_env\<lparr>claude_SendMessageWithSystem := (\<lambda>tr systemPrompt userPrompt. Inl ErrEmptyResponse)\<rparr>"

text \<open>The derivation service fails for the twitter thread only.\<close>

definition twitter_fails_env :: env where
  "twitter_fails_env =
     example_env
       \<lparr>claude_SendMessageWithSystem := (\<lambda>tr systemPrompt userPrompt.
          if systemPrompt = twitter_systemPrompt then Inl ErrEmptyResponse else Inr ''[]'')\<rparr>"

text \<open>The reply of the derivation service names the answer \<open>E\<close>.\<close>

definition answer_E_env :: env where
  "answer_E_env = example_env\<lparr>unmarshal_quiz := (\<lambda>text. Inr [example_quizData ''E''])\<rparr>"

definition example_service :: ClaudeService where
  "example_service = \<lparr>svc_conceptsMin = 3, svc_conceptsMax = 7\<rparr>"

section \<open>Properties of the transcript cleaner\<close>

text \<open>
  Claim C6 (idempotence of \<open>clean\<close>) does not hold of the code. On the transcript
  \<open>Hello [Music] world\<close> the white-space runs are collapsed before the token is deleted, so
  the two spaces around the token meet and stay; cleaning the result once more collapses
  them. The theorem evaluates both passes.
\<close>

theorem CleanTranscript_twice_differs:
  "CleanTranscript ''Hello [Music] world'' = ''Hello  world'' \<and>
   CleanTranscript (CleanTranscript ''Hello [Music] world'') = ''Hello world'' \<and>
   CleanTranscript (CleanTranscript ''Hello [Music] world'') \<noteq> CleanTranscript ''Hello [Music] world''"
  by code_simp

text \<open>
  Claim C7 (no doubled white space and no noise token in the output of \<open>clean\<close>) does not
  hold of the code either. The first conjunct is an output with two spaces in a row; the
  other two are outputs that are themselves a noise token: each token is deleted in a single
  pass, and deleting the inner occurrence puts the outer one together.
\<close>

theorem CleanTranscript_leaves_artifacts:
  "Contains (CleanTranscript ''the end [Applause] thank you'') ''  '' \<and>
   CleanTranscript ''[Mu[Music]sic]'' = ''[Music]'' \<and>
   CleanTranscript ''[Music[Applause]]'' = ''[Music]''"
  by code_simp

section \<open>Properties of the caption locator\<close>

lemma scan_entries_find:
  "scan_entries enSubs fmt = map_option entry_url (find (entry_matches fmt) enSubs)"
  by (induction enSubs)
     (auto simp: entry_matches_def entry_url_def has_url_def declared_ext_def declared_url_def
           split: option.splits)

lemma find_entry_None:
  "find (entry_matches fmt) enSubs = None \<longleftrightarrow> \<not> has_match enSubs fmt"
  by (auto simp: has_match_def find_None_iff list_ex_iff)

lemma scan_entries_None:
  "scan_entries enSubs fmt = None \<longleftrightarrow> \<not> has_match enSubs fmt"
  by (simp add: scan_entries_find find_entry_None)

lemma scan_formats_None:
  "scan_formats enSubs prefs = None \<longleftrightarrow> find (has_match enSubs) prefs = None"
proof (induction prefs)
  case Nil
  show ?case by simp
next
  case (Cons q prefs)
  show ?case
  proof (cases rule: case_split[of "has_match enSubs q"])
    case True
    then have "scan_entries enSubs q \<noteq> None" by (simp add: scan_entries_None)
    with True show ?thesis by auto
  next
    case False
    then have "scan_entries enSubs q = None" by (simp add: scan_entries_None)
    with False Cons show ?thesis by simp
  qed
qed

lemma scan_formats_Some:
  "find (has_match enSubs) prefs = Some p \<Longrightarrow> find (entry_matches p) enSubs = Some e \<Longrightarrow>
   scan_formats enSubs prefs = Some (entry_url e, p)"
proof (induction prefs)
  case Nil
  then show ?case by simp
next
  case (Cons q prefs)
  show ?case
  proof (cases rule: case_split[of "has_match enSubs q"])
    case True
    with Cons.prems have "q = p" by simp
    with Cons.prems show ?thesis by (simp add: scan_entries_find)
  next
    case False
    then have "scan_entries enSubs q = None" by (simp add: scan_entries_None)
    with False Cons show ?thesis by simp
  qed
qed

lemma first_available_eq:
  "first_available sub0 = (if has_url sub0 then (entry_url sub0, entry_format sub0) else ('''', ''''))"
  by (auto simp: first_available_def has_url_def entry_url_def entry_format_def
                 declared_url_def declared_ext_def split: option.splits)

text \<open>
  Claim C5, as the code has it. For the English entries \<open>sub0 # subs\<close> of a collection:
  \<^item> the entries are scanned against the preference list json3, vtt, srv3, srv2, srv1, and
    the result is the url of the first entry matching the first format that any entry
    matches, tagged with that format;
  \<^item> when no entry matches a preferred format, the result is the first entry of the list,
    tagged with its declared extension or \<open>unknown\<close>, provided that entry has a url;
  \<^item> when the first entry has no url, nothing is found in this collection (the later
    entries are not tried);
  \<^item> the locator returns what the automatic captions give whenever that url is not empty;
  \<^item> on the metadata of the scenario it returns url \<open>U1\<close> with encoding \<open>json3\<close>.
\<close>

theorem locator_scan_then_first_entry:
  assumes "as_array (map_of subsData ''en'') = Some (sub0 # subs)"
  shows "(\<forall>p e. find (has_match (sub0 # subs)) formatPreference = Some p \<and>
                 find (entry_matches p) (sub0 # subs) = Some e \<longrightarrow>
            extractSubtitleURL subsData formatPreference = (entry_url e, p))
       \<and> (no_preferred_match (sub0 # subs) \<and> has_url sub0 \<longrightarrow>
            extractSubtitleURL subsData formatPreference = (entry_url sub0, entry_format sub0))
       \<and> (no_preferred_match (sub0 # subs) \<and> \<not> has_url sub0 \<longrightarrow>
            extractSubtitleURL subsData formatPreference = ('''', ''''))
       \<and> (as_object (map_of videoData ''automatic_captions'') = Some subsData \<and>
            fst (extractSubtitleURL subsData formatPreference) \<noteq> '''' \<longrightarrow>
            findBestSubtitleURL videoData = extractSubtitleURL subsData formatPreference)
       \<and> findBestSubtitleURL
            [(''automatic_captions'', JObject [(''en'', JArray
                [JObject [(''ext'', JString ''json3''), (''url'', JString ''U1'')],
                 JObject [(''ext'', JString ''vtt''), (''url'', JString ''U2'')]])])]
          = (''U1'', ''json3'')"
proof -
  have scan: "\<And>p e. find (has_match (sub0 # subs)) formatPreference = Some p \<Longrightarrow>
                 find (entry_matches p) (sub0 # subs) = Some e \<Longrightarrow>
                 extractSubtitleURL subsData formatPreference = (entry_url e, p)"
    using assms by (simp add: extractSubtitleURL_def scan_formats_Some del: find.simps)
  have fallback: "no_preferred_match (sub0 # subs) \<Longrightarrow>
                 extractSubtitleURL subsData formatPreference = first_available sub0"
    using assms scan_formats_None[of "sub0 # subs" formatPreference]
    by (simp add: extractSubtitleURL_def no_preferred_match_def del: find.simps)
  have auto_first: "as_object (map_of videoData ''automatic_captions'') = Some subsData \<Longrightarrow>
                 fst (extractSubtitleURL subsData formatPreference) \<noteq> '''' \<Longrightarrow>
                 findBestSubtitleURL videoData = extractSubtitleURL subsData formatPreference"
    by (simp add: findBestSubtitleURL_def)
  have scenario: "findBestSubtitleURL
            [(''automatic_captions'', JObject [(''en'', JArray
                [JObject [(''ext'', JString ''json3''), (''url'', JString ''U1'')],
                 JObject [(''ext'', JString ''vtt''), (''url'', JString ''U2'')]])])]
          = (''U1'', ''json3'')"
    by (simp add: findBestSubtitleURL_def extractSubtitleURL_def formatPreference_def)
  show ?thesis
    using scan fallback auto_first scenario by (simp add: first_available_eq)
qed

text \<open>
  The theorem at two lists of English entries: the preference order picks the json3 entry
  although the vtt entry comes first, and a list without a preferred format gives its
  first entry.
\<close>

theorem locator_scan_then_first_entry_witness:
  "extractSubtitleURL
     [(''en'', JArray [JObject [(''ext'', JString ''vtt''), (''url'', JString ''U2'')],
                       JObject [(''ext'', JString ''json3''), (''url'', JString ''U1'')]])]
     formatPreference = (''U1'', ''json3'')
   \<and> extractSubtitleURL
     [(''en'', JArray [JObject [(''ext'', JString ''ttml''), (''url'', JString ''U3'')],
                       JObject [(''url'', JString ''U4'')]])]
     formatPreference = (''U3'', ''ttml'')"
proof -
  have a: "as_array (map_of
       [(''en'', JArray [JObject [(''ext'', JString ''vtt''), (''url'', JString ''U2'')],
                         JObject [(''ext'', JString ''json3''), (''url'', JString ''U1'')]])] ''en'')
     = Some [JObject [(''ext'', JString ''vtt''), (''url'', JString ''U2'')],
             JObject [(''ext'', JString ''json3''), (''url'', JString ''U1'')]]"
    by simp
  have b: "as_array (map_of
       [(''en'', JArray [JObject [(''ext'', JString ''ttml''), (''url'', JString ''U3'')],
                         JObject [(''url'', JString ''U4'')]])] ''en'')
     = Some [JObject [(''ext'', JString ''ttml''), (''url'', JString ''U3'')],
             JObject [(''url'', JString ''U4'')]]"
    by simp
  show ?thesis
    using locator_scan_then_first_entry[OF a, of "[]"] locator_scan_then_first_entry[OF b, of "[]"]
    by (simp add: formatPreference_def has_match_def entry_matches_def has_url_def
          declared_ext_def declared_url_def entry_url_def entry_format_def no_preferred_match_def)
qed

text \<open>
  Claim C5 as it is written fails where the first English entry has no url: no entry
  matches a preferred format and an English entry exists, yet the locator returns nothing
  instead of a descriptor tagged with the first entry's extension \<open>ttml\<close>, and it does not
  go on to the second entry, which has a url.
\<close>

theorem locator_first_entry_without_url:
  "no_preferred_match
     [JObject [(''ext'', JString ''ttml'')],
      JObject [(''ext'', JString ''xyz''), (''url'', JString ''U2'')]]
   \<and> findBestSubtitleURL
       [(''automatic_captions'', JObject [(''en'', JArray
          [JObject [(''ext'', JString ''ttml'')],
           JObject [(''ext'', JString ''xyz''), (''url'', JString ''U2'')]])])]
     = ('''', '''')"
  by (simp add: findBestSubtitleURL_def extractSubtitleURL_def formatPreference_def
        first_available_def no_preferred_match_def has_match_def entry_matches_def has_url_def
        declared_ext_def declared_url_def)

section \<open>Properties of the repositories\<close>

lemma create_batch_empty:
  "len xs = 0 \<Longrightarrow> create_batch ins ev msg e tr xs = (Inr (Slice []), tr)"
  by (simp add: create_batch_def)

text \<open>
  Claim C10. Called with an empty list (\<^verbatim>\<open>nil\<close> or of length 0), \<open>CreateQuizBatch\<close> and
  \<open>CreateGeneratedContentBatch\<close> return the empty slice that is not \<^verbatim>\<open>nil\<close>, with no
  error, and leave the trace as it was: no transaction is begun and the store is not
  called.
\<close>

theorem empty_batch_returns_before_begin:
  assumes "len questions = 0" and "len contents = 0"
  shows "CreateQuizBatch e tr questions = (Inr (Slice []), tr) \<and>
         CreateGeneratedContentBatch e tr contents = (Inr (Slice []), tr)"
  using assms by (simp add: CreateQuizBatch_def CreateGeneratedContentBatch_def create_batch_empty)

theorem empty_batch_returns_before_begin_witness:
  "CreateQuizBatch example_env [] NilSlice = (Inr (Slice []), []) \<and>
   CreateGeneratedContentBatch example_env [] (Slice []) = (Inr (Slice []), [])"
  using empty_batch_returns_before_begin[of NilSlice "Slice []" example_env "[]"]
  by (simp add: len_def)

text \<open>
  What the filter of \<open>GetGeneratedContentByConceptIDs\<close> appends for one row: the row, once
  for every position of the query list whose id is among the row's ids.
\<close>

lemma filter_inner_mem: "filter_inner t ids = (t \<in> set ids)"
  by (induction ids) auto

lemma filter_outer_elems:
  "elems (filter_outer targetIDs gc contents) =
   elems contents @
   replicate (length (filter (\<lambda>t. t \<in> set (elems (gc_ConceptIDs gc))) targetIDs)) gc"
proof (induction targetIDs arbitrary: contents)
  case Nil
  show ?case by simp
next
  case (Cons t ts)
  show ?case by (simp add: Cons filter_inner_mem append1_def replicate_app_Cons_same)
qed

text \<open>
  Claim C4 does not hold of the code: an item is returned once for every query id it
  matches, not once. The store holds one item made from the concepts 1 and 2; queried
  with the ids 1 and 2, the item comes back twice.
\<close>

theorem content_matching_two_ids_returned_twice:
  "fst (GetGeneratedContentByConceptIDs stored_content_env [] (Slice [1, 2]))
     = Inr (Slice [example_content, example_content])"
  by (simp add: GetGeneratedContentByConceptIDs_def stored_content_env_def example_env_def
        example_content_def append1_def)

section \<open>Properties of the derivation service\<close>

lemma ToUpper_letter:
  "s \<in> set [''a'', ''b'', ''c'', ''d'', ''A'', ''B'', ''C'', ''D''] \<Longrightarrow> ToUpper e s \<in> set answer_letters"
proof -
  have up: "upper_ascii (CHR ''a'') = CHR ''A''" "upper_ascii (CHR ''b'') = CHR ''B''"
    "upper_ascii (CHR ''c'') = CHR ''C''" "upper_ascii (CHR ''d'') = CHR ''D''"
    "upper_ascii (CHR ''A'') = CHR ''A''" "upper_ascii (CHR ''B'') = CHR ''B''"
    "upper_ascii (CHR ''C'') = CHR ''C''" "upper_ascii (CHR ''D'') = CHR ''D''"
    by code_simp+
  assume "s \<in> set [''a'', ''b'', ''c'', ''d'', ''A'', ''B'', ''C'', ''D'']"
  then consider "s = ''a''" | "s = ''b''" | "s = ''c''" | "s = ''d''"
    | "s = ''A''" | "s = ''B''" | "s = ''C''" | "s = ''D''"
    by auto
  then show ?thesis
    by cases (simp_all add: ToUpper_def up answer_letters_def)
qed

text \<open>
  Claim C9, as the code has it. \<open>GenerateQuiz\<close> stores the answer letter of every decoded
  question in upper case and checks nothing: the stored letters are the upper-cased letters
  of the reply, one for one, so every question has its answer among A, B, C, D whenever
  every answer of the reply is one of these four letters in either case.
\<close>

theorem GenerateQuiz_upper_cases_answer:
  assumes "GenerateQuiz e tr concept = (Inr questions, tr1)"
  shows "\<exists>responseText quizData.
           claude_SendMessageWithSystem e tr GenerateQuiz_systemPrompt
             (GenerateQuiz_userPrompt (c_Title concept) (c_Description concept)) = Inr responseText \<and>
           ParseJSONResponse (unmarshal_quiz e) responseText = Inr quizData \<and>
           map q_CorrectAnswer (elems questions) = map (\<lambda>q. ToUpper e (qd_CorrectAnswer q)) quizData \<and>
           (list_all (\<lambda>q. qd_CorrectAnswer q \<in> set [''a'', ''b'', ''c'', ''d'', ''A'', ''B'', ''C'', ''D'']) quizData
            \<longrightarrow> list_all (\<lambda>q. q_CorrectAnswer q \<in> set answer_letters) (elems questions))"
proof -
  from assms obtain responseText quizData where
    sent: "claude_SendMessageWithSystem e tr GenerateQuiz_systemPrompt
             (GenerateQuiz_userPrompt (c_Title concept) (c_Description concept)) = Inr responseText"
    and parsed: "ParseJSONResponse (unmarshal_quiz e) responseText = Inr quizData"
    and qs: "questions = Slice (map (question_of e concept) quizData)"
    by (auto simp: GenerateQuiz_def Let_def split: sum.splits)
  have answers: "map q_CorrectAnswer (elems questions) = map (\<lambda>q. ToUpper e (qd_CorrectAnswer q)) quizData"
    by (simp add: qs question_of_def comp_def)
  have "list_all (\<lambda>q. q_CorrectAnswer q \<in> set answer_letters) (elems questions)"
    if "list_all (\<lambda>q. qd_CorrectAnswer q \<in> set [''a'', ''b'', ''c'', ''d'', ''A'', ''B'', ''C'', ''D'']) quizData"
    using that ToUpper_letter[of _ e] unfolding qs
    by (simp add: list_all_iff question_of_def del: set_simps) 
  with sent parsed answers show ?thesis by blast
qed

text \<open>A run of \<open>GenerateQuiz\<close> in the example environment, for any answer letter of the reply.\<close>

lemma GenerateQuiz_example:
  "GenerateQuiz (example_env\<lparr>unmarshal_quiz := (\<lambda>text. Inr [example_quizData a])\<rparr>) tr (example_concept 1) =
     (Inr (Slice [question_of (example_env\<lparr>unmarshal_quiz := (\<lambda>text. Inr [example_quizData a])\<rparr>) (example_concept 1) (example_quizData a)]),
      tr @ [SendMessageWithSystem GenerateQuiz_systemPrompt
              (GenerateQuiz_userPrompt (c_Title (example_concept 1)) (c_Description (example_concept 1)))])"
  by (simp add: GenerateQuiz_def example_env_def ParseJSONResponse_def Contains_def fence_def)

text \<open>The theorem at the example environment, whose reply names the answer \<open>b\<close>.\<close>

theorem GenerateQuiz_upper_cases_answer_witness:
  "map q_CorrectAnswer (elems (projr (fst (GenerateQuiz example_env [] (example_concept 1))))) = [''B'']"
proof -
  have eq: "example_env = example_env\<lparr>unmarshal_quiz := (\<lambda>text. Inr [example_quizData ''b''])\<rparr>"
    by (simp add: example_env_def)
  have up: "upper_ascii (CHR ''b'') = CHR ''B''" by code_simp
  have run: "GenerateQuiz example_env [] (example_concept 1) =
     (Inr (Slice [question_of example_env (example_concept 1) (example_quizData ''b'')]),
      [SendMessageWithSystem GenerateQuiz_systemPrompt
              (GenerateQuiz_userPrompt (c_Title (example_concept 1)) (c_Description (example_concept 1)))])"
    using GenerateQuiz_example[of "''b''" "[]"] eq by simp
  show ?thesis
    using GenerateQuiz_upper_cases_answer[OF run]
    by (simp add: run question_of_def example_quizData_def ToUpper_def up)
qed

text \<open>
  Claim C9 as it is written fails on a reply whose answer is another letter: the question
  is produced with the answer \<open>E\<close>.
\<close>

theorem GenerateQuiz_answer_E:
  "map q_CorrectAnswer (elems (projr (fst (GenerateQuiz answer_E_env [] (example_concept 1))))) = [''E'']
   \<and> ''E'' \<notin> set answer_letters"
proof -
  have up: "upper_ascii (CHR ''E'') = CHR ''E''" by code_simp
  show ?thesis
    using GenerateQuiz_example[of "''E''" "[]"]
    by (simp add: answer_E_env_def question_of_def example_quizData_def ToUpper_def up
          answer_letters_def)
qed

section \<open>Properties of the pipeline\<close>

text \<open>
  Each of the three reads appends its one event, whatever it returns.
\<close>

lemma GetConcepts_trace:
  "snd (GetConceptsBySourceContentID e tr i) = tr @ [SelectConceptsBySourceContentID i]"
  by (simp add: GetConceptsBySourceContentID_def split: query_result.splits sum.splits option.splits)

lemma GetQuizzes_trace:
  "snd (GetQuizzesBySourceContentID e tr i) = tr @ [SelectQuizzesBySourceContentID i]"
  by (simp add: GetQuizzesBySourceContentID_def split: query_result.splits sum.splits option.splits)

lemma GetGenerated_trace:
  "snd (GetGeneratedContentByConceptIDs e tr ids) = tr @ [SelectGeneratedContents]"
  by (simp add: GetGeneratedContentByConceptIDs_def split: query_result.splits sum.splits option.splits)

text \<open>
  \<open>getExistingProcessResult\<close> with its traces written out.
\<close>

lemma getExistingProcessResult_eq:
  "getExistingProcessResult e tr1 existing =
     (let got_concepts = fst (GetConceptsBySourceContentID e tr1 (sc_ID existing));
          concepts = (case got_concepts of Inl err \<Rightarrow> Slice [] | Inr cs \<Rightarrow> cs);
          tr2 = tr1 @ [SelectConceptsBySourceContentID (sc_ID existing)];
          got_quizzes = fst (GetQuizzesBySourceContentID e tr2 (sc_ID existing));
          quizzes = (case got_quizzes of Inl err \<Rightarrow> Slice [] | Inr qs \<Rightarrow> qs);
          tr3 = tr2 @ [SelectQuizzesBySourceContentID (sc_ID existing)];
          got_content = fst (GetGeneratedContentByConceptIDs e tr3 (Slice (map c_ID (elems concepts))));
          generatedContent =
            (if len concepts > 0
             then (case got_content of Inl err \<Rightarrow> Slice [] | Inr content \<Rightarrow> content)
             else NilSlice);
          tr4 = tr3 @ (if len concepts > 0 then [SelectGeneratedContents] else [])
      in (Inr \<lparr>pr_SourceContent = Some existing, pr_Concepts = concepts, pr_Quizzes = quizzes,
               pr_GeneratedContent = generatedContent\<rparr>, tr4))"
proof -
  obtain r1 t1 where c: "GetConceptsBySourceContentID e tr1 (sc_ID existing) = (r1, t1)"
    by (cases rule: prod.exhaust)
  have t1: "t1 = tr1 @ [SelectConceptsBySourceContentID (sc_ID existing)]"
    using GetConcepts_trace[of e tr1 "sc_ID existing"] c by simp
  obtain r2 t2 where q: "GetQuizzesBySourceContentID e t1 (sc_ID existing) = (r2, t2)"
    by (cases rule: prod.exhaust)
  have t2: "t2 = t1 @ [SelectQuizzesBySourceContentID (sc_ID existing)]"
    using GetQuizzes_trace[of e t1 "sc_ID existing"] q by simp
  obtain r3 t3 where g: "GetGeneratedContentByConceptIDs e t2
       (Slice (map c_ID (elems (case r1 of Inl err \<Rightarrow> Slice [] | Inr cs \<Rightarrow> cs)))) = (r3, t3)"
    by (cases rule: prod.exhaust)
  have t3: "t3 = t2 @ [SelectGeneratedContents]"
    using GetGenerated_trace[of e t2] g by (metis snd_conv)
  show ?thesis
    using c q g unfolding getExistingProcessResult_def Let_def t1[symmetric]
    apply (simp add: t2[symmetric])
    apply (simp add: t2 t3 split: sum.splits)
    done
qed

text \<open>
  Claim C1. When the store finds a source content for the url, \<open>ProcessYouTubeURL\<close>
  succeeds with a result made of that record (so its id is the record's), of the concepts
  and the quizzes the store returns for the record's id, and of the generated content the
  store returns for the ids of those concepts (a read that fails gives an empty
  collection, and without concepts the generated content is not read). The trace grows by
  the reads of the store only: the events of transcript acquisition and of the derivation
  service are those of the trace before the call.
\<close>

theorem duplicate_url_short_circuits:
  assumes "db_select_source_by_url e tr url = Row existing"
  shows "let tr1 = tr @ [SelectSourceContentByURL url];
             got_concepts = fst (GetConceptsBySourceContentID e tr1 (sc_ID existing));
             concepts = (case got_concepts of Inl err \<Rightarrow> Slice [] | Inr cs \<Rightarrow> cs);
             tr2 = tr1 @ [SelectConceptsBySourceContentID (sc_ID existing)];
             got_quizzes = fst (GetQuizzesBySourceContentID e tr2 (sc_ID existing));
             quizzes = (case got_quizzes of Inl err \<Rightarrow> Slice [] | Inr qs \<Rightarrow> qs);
             tr3 = tr2 @ [SelectQuizzesBySourceContentID (sc_ID existing)];
             got_content = fst (GetGeneratedContentByConceptIDs e tr3 (Slice (map c_ID (elems concepts))));
             generatedContent =
               (if len concepts > 0
                then (case got_content of Inl err \<Rightarrow> Slice [] | Inr content \<Rightarrow> content)
                else NilSlice);
             tr4 = tr3 @ (if len concepts > 0 then [SelectGeneratedContents] else [])
         in ProcessYouTubeURL e s tr url =
              (Inr \<lparr>pr_SourceContent = Some existing, pr_Concepts = concepts, pr_Quizzes = quizzes,
                    pr_GeneratedContent = generatedContent\<rparr>, tr4)
            \<and> filter external_call tr4 = filter external_call tr"
proof -
  have "ProcessYouTubeURL e s tr url =
        getExistingProcessResult e (tr @ [SelectSourceContentByURL url]) existing"
    using assms by (simp add: ProcessYouTubeURL_def GetSourceContentByURL_def)
  then show ?thesis
    by (simp add: getExistingProcessResult_eq Let_def)
qed


text \<open>
  The theorem at an environment whose store holds the source content, two concepts and one
  piece of content: the result and the four reads.
\<close>

theorem duplicate_url_short_circuits_witness:
  "ProcessYouTubeURL processed_env example_service [] ''https://youtu.be/abc'' =
     (Inr \<lparr>pr_SourceContent = Some example_source,
           pr_Concepts = Slice [example_concept 1, example_concept 2],
           pr_Quizzes = NilSlice,
           pr_GeneratedContent = Slice [example_content, example_content]\<rparr>,
      [SelectSourceContentByURL ''https://youtu.be/abc'', SelectConceptsBySourceContentID 1,
       SelectQuizzesBySourceContentID 1, SelectGeneratedContents])"
proof -
  have found: "db_select_source_by_url processed_env [] ''https://youtu.be/abc'' = Row example_source"
    by (simp add: processed_env_def)
  show ?thesis
    using duplicate_url_short_circuits[OF found, of example_service]
    by (simp add: Let_def processed_env_def example_env_def GetConceptsBySourceContentID_def
          GetQuizzesBySourceContentID_def GetGeneratedContentByConceptIDs_def append1_def len_def
          example_source_def example_concept_def example_content_def)
qed

text \<open>
  Claim C2. When no duplicate is found, the video information comes with a transcript,
  and the source content is saved, but then the concept extraction fails, or it succeeds
  and saving the concepts fails, \<open>ProcessYouTubeURL\<close> returns no error and a result that
  holds the saved source content and three empty collections.
\<close>

theorem concept_failure_returns_source_only:
  assumes "GetSourceContentByURL e tr url = (Inr None, tr1)"
    and "GetVideoInfo e tr1 url = ((Some videoInfo, None), tr2)"
    and "vi_Transcript videoInfo = Some transcript"
    and "vi_Metadata videoInfo = Some metadata"
    and "CreateSourceContent e tr2
           \<lparr>req_Type = ''youtube'', req_URL = url, req_Title = m_Title metadata,
            req_Transcript = t_Text transcript\<rparr> = (Inr sourceContent, tr3)"
    and "(\<exists>err tr4. ExtractConcepts e s tr3 (t_Text transcript) (sc_ID sourceContent) = (Inl err, tr4))
       \<or> (\<exists>concepts tr4 err tr5.
             ExtractConcepts e s tr3 (t_Text transcript) (sc_ID sourceContent) = (Inr concepts, tr4) \<and>
             CreateConceptsBatch e tr4 concepts = (Inl err, tr5))"
  shows "\<exists>tr'. ProcessYouTubeURL e s tr url =
           (Inr \<lparr>pr_SourceContent = Some sourceContent, pr_Concepts = Slice [],
                 pr_Quizzes = Slice [], pr_GeneratedContent = Slice []\<rparr>, tr')"
  using assms by (auto simp: ProcessYouTubeURL_def source_only_def)

text \<open>
  The first three steps in an environment that answers them as the example environment does.
\<close>

lemma example_GetSourceContentByURL:
  "db_select_source_by_url e = db_select_source_by_url example_env \<Longrightarrow>
   GetSourceContentByURL e tr url = (Inr None, tr @ [SelectSourceContentByURL url])"
  by (simp add: GetSourceContentByURL_def example_env_def)

lemma example_GetVideoInfo:
  "yt_GetVideoMetadata e = yt_GetVideoMetadata example_env \<Longrightarrow>
   yt_GetTranscript e = yt_GetTranscript example_env \<Longrightarrow>
   GetVideoInfo e tr url =
     ((Some \<lparr>vi_Transcript = Some \<lparr>t_Text = ''Hello world'', t_Language = ''en''\<rparr>,
             vi_Metadata = Some \<lparr>m_Title = ''A talk'', m_Duration = 60, m_Channel = ''C''\<rparr>\<rparr>, None),
      tr @ [GetVideoMetadata url, GetTranscript url])"
  by (simp add: GetVideoInfo_def example_env_def)

lemma example_CreateSourceContent:
  "db_insert_source e = db_insert_source example_env \<Longrightarrow>
   CreateSourceContent e tr
     \<lparr>req_Type = ''youtube'', req_URL = ''https://youtu.be/abc'',
      req_Title = m_Title \<lparr>m_Title = ''A talk'', m_Duration = 60, m_Channel = ''C''\<rparr>,
      req_Transcript = t_Text \<lparr>t_Text = ''Hello world'', t_Language = ''en''\<rparr>\<rparr> =
     (Inr example_source,
      tr @ [InsertSourceContent \<lparr>req_Type = ''youtube'', req_URL = ''https://youtu.be/abc'',
              req_Title = ''A talk'', req_Transcript = ''Hello world''\<rparr>])"
  by (simp add: CreateSourceContent_def example_env_def example_source_def)

text \<open>
  The theorem at the environment whose derivation service returns \<open>ErrEmptyResponse\<close>.
\<close>

theorem concept_failure_returns_source_only_witness:
  "fst (ProcessYouTubeURL empty_response_env example_service [] ''https://youtu.be/abc'') =
     Inr \<lparr>pr_SourceContent = Some example_source, pr_Concepts = Slice [],
          pr_Quizzes = Slice [], pr_GeneratedContent = Slice []\<rparr>"
proof -
  have h1: "GetSourceContentByURL empty_response_env [] ''https://youtu.be/abc'' =
      (Inr None, [] @ [SelectSourceContentByURL ''https://youtu.be/abc''])"
    by (rule example_GetSourceContentByURL) (simp add: empty_response_env_def)
  have h2: "GetVideoInfo empty_response_env ([] @ [SelectSourceContentByURL ''https://youtu.be/abc''])
      ''https://youtu.be/abc'' =
     ((Some \<lparr>vi_Transcript = Some \<lparr>t_Text = ''Hello world'', t_Language = ''en''\<rparr>,
             vi_Metadata = Some \<lparr>m_Title = ''A talk'', m_Duration = 60, m_Channel = ''C''\<rparr>\<rparr>, None),
      ([] @ [SelectSourceContentByURL ''https://youtu.be/abc'']) @
        [GetVideoMetadata ''https://youtu.be/abc'', GetTranscript ''https://youtu.be/abc''])"
    by (rule example_GetVideoInfo) (simp_all add: empty_response_env_def)
  have h5: "CreateSourceContent empty_response_env
       (([] @ [SelectSourceContentByURL ''https://youtu.be/abc'']) @
        [GetVideoMetadata ''https://youtu.be/abc'', GetTranscript ''https://youtu.be/abc''])
     \<lparr>req_Type = ''youtube'', req_URL = ''https://youtu.be/abc'',
      req_Title = m_Title \<lparr>m_Title = ''A talk'', m_Duration = 60, m_Channel = ''C''\<rparr>,
      req_Transcript = t_Text \<lparr>t_Text = ''Hello world'', t_Language = ''en''\<rparr>\<rparr> =
     (Inr example_source,
      (([] @ [SelectSourceContentByURL ''https://youtu.be/abc'']) @
        [GetVideoMetadata ''https://youtu.be/abc'', GetTranscript ''https://youtu.be/abc'']) @
       [InsertSourceContent \<lparr>req_Type = ''youtube'', req_URL = ''https://youtu.be/abc'',
              req_Title = ''A talk'', req_Transcript = ''Hello world''\<rparr>])"
    by (rule example_CreateSourceContent) (simp add: empty_response_env_def)
  have h6: "\<exists>err tr4. ExtractConcepts empty_response_env example_service tr
              (t_Text \<lparr>t_Text = ''Hello world'', t_Language = ''en''\<rparr>) (sc_ID example_source)
            = (Inl err, tr4)" for tr
    by (simp add: ExtractConcepts_def empty_response_env_def example_env_def)
  show ?thesis
    using concept_failure_returns_source_only[OF h1 h2 _ _ h5 disjI1, OF _ _ h6]
    by auto
qed

end
